theory Spec2Isabelle
  imports Complex_Main
begin

section \<open>save\_roipac: conversion of MintPy products to ROI\_PAC rasters\<close>

text \<open>
  A shallow embedding of \<^verbatim>\<open>src/mintpy/save_roipac.py\<close>: the functions
  \<^verbatim>\<open>cmd_line_parse\<close>, \<^verbatim>\<open>read_data\<close>, \<^verbatim>\<open>clean_metadata4roipac\<close> and
  \<^verbatim>\<open>main\<close>.

  Conventions of the model.
  \<^item> A character is a code point below 256 (Latin-1), and a string a list of them;
    on these, letter case and white space are Python's. Text with other characters is
    outside the model.
  \<^item> A raster is a row-major list of rows. NumPy's floating-point cells are idealised
    as real numbers, so the arithmetic below is exact.
  \<^item> Every exception of the source is a value of type \<open>error\<close>; a function that can
    raise returns \<open>error + 'a\<close>.
  \<^item> Console output (\<^verbatim>\<open>print\<close>) is not modelled.
\<close>

subsection \<open>Python strings\<close>

text \<open>
  \<^verbatim>\<open>c.islower()\<close> and \<^verbatim>\<open>c.isupper()\<close> for one character: besides the ASCII
  letters, the lower-case characters below 256 are the ordinal indicators (170, 186),
  the micro sign (181) and the letters 223-246 and 248-255; the upper-case ones are the
  letters 192-214 and 216-222. No character below 256 is title-case.
\<close>

definition is_lower :: "char \<Rightarrow> bool" where
  "is_lower c =
     ((97 \<le> (of_char c :: nat) \<and> (of_char c :: nat) \<le> 122)
      \<or> (of_char c :: nat) = 170 \<or> (of_char c :: nat) = 181 \<or> (of_char c :: nat) = 186
      \<or> (223 \<le> (of_char c :: nat) \<and> (of_char c :: nat) \<le> 246)
      \<or> (248 \<le> (of_char c :: nat) \<and> (of_char c :: nat) \<le> 255))"

definition is_upper :: "char \<Rightarrow> bool" where
  "is_upper c =
     ((65 \<le> (of_char c :: nat) \<and> (of_char c :: nat) \<le> 90)
      \<or> (192 \<le> (of_char c :: nat) \<and> (of_char c :: nat) \<le> 214)
      \<or> (216 \<le> (of_char c :: nat) \<and> (of_char c :: nat) \<le> 222))"

definition is_digit :: "char \<Rightarrow> bool" where
  "is_digit c = (48 \<le> (of_char c :: nat) \<and> (of_char c :: nat) \<le> 57)"

text \<open>
  The white space that \<^verbatim>\<open>int\<close> and \<^verbatim>\<open>float\<close> skip around a numeral: tab to
  carriage return and the space and, below 256, the next-line character (133) and the
  no-break space (160).
\<close>

definition is_space :: "char \<Rightarrow> bool" where
  "is_space c =
     ((9 \<le> (of_char c :: nat) \<and> (of_char c :: nat) \<le> 13)
      \<or> (of_char c :: nat) = 32 \<or> (of_char c :: nat) = 133 \<or> (of_char c :: nat) = 160)"

text \<open>
  \<^verbatim>\<open>str.isupper\<close>: no lower-case (or title-case) character and at least one
  upper-case character.
\<close>

definition isupper :: "string \<Rightarrow> bool" where
  "isupper s = (list_ex is_upper s \<and> \<not> list_ex is_lower s)"

text \<open>
  \<^verbatim>\<open>c.lower()\<close>: each upper-case character has its lower-case partner 32 code points
  above it; every other character is left as it is.
\<close>

definition upper_chars :: "string" where
  "upper_chars = ''ABCDEFGHIJKLMNOPQRSTUVWXYZ'' @
     [CHR 0xC0, CHR 0xC1, CHR 0xC2, CHR 0xC3, CHR 0xC4, CHR 0xC5, CHR 0xC6, CHR 0xC7,
      CHR 0xC8, CHR 0xC9, CHR 0xCA, CHR 0xCB, CHR 0xCC, CHR 0xCD, CHR 0xCE, CHR 0xCF,
      CHR 0xD0, CHR 0xD1, CHR 0xD2, CHR 0xD3, CHR 0xD4, CHR 0xD5, CHR 0xD6,
      CHR 0xD8, CHR 0xD9, CHR 0xDA, CHR 0xDB, CHR 0xDC, CHR 0xDD, CHR 0xDE]"

definition lower_chars :: "string" where
  "lower_chars = ''abcdefghijklmnopqrstuvwxyz'' @
     [CHR 0xE0, CHR 0xE1, CHR 0xE2, CHR 0xE3, CHR 0xE4, CHR 0xE5, CHR 0xE6, CHR 0xE7,
      CHR 0xE8, CHR 0xE9, CHR 0xEA, CHR 0xEB, CHR 0xEC, CHR 0xED, CHR 0xEE, CHR 0xEF,
      CHR 0xF0, CHR 0xF1, CHR 0xF2, CHR 0xF3, CHR 0xF4, CHR 0xF5, CHR 0xF6,
      CHR 0xF8, CHR 0xF9, CHR 0xFA, CHR 0xFB, CHR 0xFC, CHR 0xFD, CHR 0xFE]"

definition to_lower :: "char \<Rightarrow> char" where
  "to_lower c = (case map_of (zip upper_chars lower_chars) c of None \<Rightarrow> c | Some l \<Rightarrow> l)"

text \<open>\<^verbatim>\<open>str.lower\<close>.\<close>

definition lower :: "string \<Rightarrow> string" where
  "lower s = map to_lower s"

text \<open>\<^verbatim>\<open>s.startswith(p)\<close>.\<close>

definition startswith :: "string \<Rightarrow> string \<Rightarrow> bool" where
  "startswith s p = (take (length p) s = p)"

text \<open>\<^verbatim>\<open>sub in s\<close> for strings: \<open>sub\<close> occurs in \<open>s\<close> as a contiguous block.\<close>

fun contains :: "string \<Rightarrow> string \<Rightarrow> bool" where
  "contains [] sub = (sub = [])"
| "contains (c # s) sub = (startswith (c # s) sub \<or> contains s sub)"

text \<open>\<^verbatim>\<open>s.split(sep)\<close> for a one-character separator: never the empty list.\<close>

fun split :: "char \<Rightarrow> string \<Rightarrow> string list" where
  "split sep [] = [[]]"
| "split sep (c # s) =
     (if c = sep then [] # split sep s
      else (case split sep s of
              [] \<Rightarrow> [[c]]
            | w # ws \<Rightarrow> (c # w) # ws))"

text \<open>A numeral without the white space around it.\<close>

definition strip :: "string \<Rightarrow> string" where
  "strip s = rev (dropWhile is_space (rev (dropWhile is_space s)))"

text \<open>\<^verbatim>\<open>date[2:8]\<close>: the slice clips at the end of the string.\<close>

definition slice_2_8 :: "string \<Rightarrow> string" where
  "slice_2_8 s = take 6 (drop 2 s)"

text \<open>Decimal digits, most significant first.\<close>

definition digit_val :: "char \<Rightarrow> nat" where
  "digit_val c = (of_char c :: nat) - 48"

definition nat_of_digits :: "string \<Rightarrow> nat" where
  "nat_of_digits s = foldl (\<lambda>acc c. 10 * acc + digit_val c) 0 s"

fun digits_of_nat :: "nat \<Rightarrow> string" where
  "digits_of_nat n =
     (if n < 10 then [''0123456789'' ! n]
      else digits_of_nat (n div 10) @ [''0123456789'' ! (n mod 10)])"

subsection \<open>Errors and attribute values\<close>

text \<open>
  The exceptions the source can raise. \<open>PyException\<close> is the bare \<^verbatim>\<open>Exception\<close>
  of \<^verbatim>\<open>cmd_line_parse\<close>; \<open>External\<close> is any failure inside a collaborator that is not
  part of this file (readers, writer, date and slice-name helpers); \<open>Unmodelled\<close> marks
  the inputs of a Python builtin that this model does not cover.
\<close>

datatype error =
    PyException string
  | KeyError string
  | ValueError string
  | IndexError
  | TypeError
  | AttributeError
  | ZeroDivisionError
  | External string
  | Unmodelled string

text \<open>
  A value of the working attribute dictionary: the text read from the file, or the
  Python integer stored by the \<^verbatim>\<open>--ref-yx\<close> override.
\<close>

datatype attr = Str string | IntV int

type_synonym atr = "string \<rightharpoonup> attr"

text \<open>\<^verbatim>\<open>str(value)\<close>.\<close>

definition str_of_int :: "int \<Rightarrow> string" where
  "str_of_int i = (if i < 0 then CHR ''-'' # digits_of_nat (nat (- i)) else digits_of_nat (nat i))"

fun py_str :: "attr \<Rightarrow> string" where
  "py_str (Str s) = s"
| "py_str (IntV i) = str_of_int i"

text \<open>\<^verbatim>\<open>atr[key]\<close>: a missing key raises \<^verbatim>\<open>KeyError\<close>.\<close>

definition getitem :: "(string \<rightharpoonup> 'v) \<Rightarrow> string \<Rightarrow> error + 'v" where
  "getitem d key = (case d key of None \<Rightarrow> Inl (KeyError key) | Some v \<Rightarrow> Inr v)"

subsection \<open>The metadata sanitizer\<close>

text \<open>
  \<^verbatim>\<open>clean_metadata4roipac\<close>. The first loop copies every item with its value turned
  into text; the second pops the five listed keys; the third pops every key for which
  \<^verbatim>\<open>key.isupper()\<close> is false; the last statement reads \<^verbatim>\<open>atr['LENGTH']\<close> and
  stores it under \<^verbatim>\<open>FILE_LENGTH\<close>.
\<close>

definition drop_keys :: "string list" where
  "drop_keys = [''width'', ''Width'', ''samples'', ''length'', ''lines'']"

definition pop_if_present :: "string \<Rightarrow> (string \<rightharpoonup> string) \<Rightarrow> (string \<rightharpoonup> string)" where
  "pop_if_present key d = (if d key \<noteq> None then d(key := None) else d)"

definition pop_not_upper :: "(string \<rightharpoonup> string) \<Rightarrow> (string \<rightharpoonup> string)" where
  "pop_not_upper d = (\<lambda>key. if isupper key then d key else None)"

definition clean_metadata4roipac :: "atr \<Rightarrow> error + (string \<rightharpoonup> string)" where
  "clean_metadata4roipac atr_in =
     (let atr = (\<lambda>key. map_option py_str (atr_in key));
          atr = fold pop_if_present drop_keys atr;
          atr = pop_not_upper atr
      in case getitem atr ''LENGTH'' of
           Inl e \<Rightarrow> Inl e
         | Inr v \<Rightarrow> Inr (atr(''FILE_LENGTH'' \<mapsto> v)))"

subsection \<open>Results that may be an exception\<close>

definition bindE :: "error + 'a \<Rightarrow> ('a \<Rightarrow> error + 'b) \<Rightarrow> error + 'b" where
  "bindE r f = (case r of Inl e \<Rightarrow> Inl e | Inr x \<Rightarrow> f x)"

fun mapE :: "('a \<Rightarrow> error + 'b) \<Rightarrow> 'a list \<Rightarrow> error + 'b list" where
  "mapE f [] = Inr []"
| "mapE f (x # xs) = bindE (f x) (\<lambda>y. bindE (mapE f xs) (\<lambda>ys. Inr (y # ys)))"

text \<open>\<^verbatim>\<open>a, b = xs\<close>: anything but two elements raises \<^verbatim>\<open>ValueError\<close>.\<close>

fun unpack2 :: "'a list \<Rightarrow> error + ('a \<times> 'a)" where
  "unpack2 [a, b] = Inr (a, b)"
| "unpack2 xs = Inl (ValueError ''unpack'')"

text \<open>\<^verbatim>\<open>xs[0]\<close> and \<^verbatim>\<open>xs[-1]\<close>.\<close>

definition first :: "'a list \<Rightarrow> error + 'a" where
  "first xs = (case xs of [] \<Rightarrow> Inl IndexError | x # _ \<Rightarrow> Inr x)"

definition final :: "'a list \<Rightarrow> error + 'a" where
  "final xs = (case rev xs of [] \<Rightarrow> Inl IndexError | x # _ \<Rightarrow> Inr x)"

subsection \<open>Numbers read from text\<close>

definition split_sign :: "string \<Rightarrow> bool \<times> string" where
  "split_sign s =
     (case s of
        [] \<Rightarrow> (False, [])
      | c # r \<Rightarrow> if c = CHR ''-'' then (True, r) else if c = CHR ''+'' then (False, r) else (False, s))"

definition all_digits :: "string \<Rightarrow> bool" where
  "all_digits s = (s \<noteq> [] \<and> list_all is_digit s)"

text \<open>
  \<^verbatim>\<open>int(value)\<close>: an integer is returned as it is; a text is stripped and read as an
  optionally signed decimal numeral. Digit-group underscores are outside the model.
\<close>

fun py_int :: "attr \<Rightarrow> error + int" where
  "py_int (IntV i) = Inr i"
| "py_int (Str s) =
     (case split_sign (strip s) of (neg, body) \<Rightarrow>
        if CHR ''_'' \<in> set body then Inl (Unmodelled ''int'')
        else if all_digits body
          then Inr (if neg then - int (nat_of_digits body) else int (nat_of_digits body))
        else Inl (ValueError ''int''))"

text \<open>
  The unsigned mantissa \<^verbatim>\<open>digits[.digits]\<close> or \<^verbatim>\<open>.digits\<close> of a decimal
  numeral, and its optional exponent.
\<close>

definition mantissa :: "string \<Rightarrow> error + real" where
  "mantissa m =
     (case split CHR ''.'' m of
        [ip] \<Rightarrow> if all_digits ip then Inr (real (nat_of_digits ip)) else Inl (ValueError ''float'')
      | [ip, fp] \<Rightarrow>
          if ip @ fp \<noteq> [] \<and> list_all is_digit ip \<and> list_all is_digit fp
          then Inr (real (nat_of_digits (ip @ fp)) / 10 ^ length fp)
          else Inl (ValueError ''float'')
      | _ \<Rightarrow> Inl (ValueError ''float''))"

definition exponent :: "string \<Rightarrow> error + real" where
  "exponent ex =
     (case ex of
        [] \<Rightarrow> Inr 1
      | _ # digits \<Rightarrow>
          (case split_sign digits of (neg, body) \<Rightarrow>
             if all_digits body
             then Inr (if neg then 1 / 10 ^ nat_of_digits body else 10 ^ nat_of_digits body)
             else Inl (ValueError ''float'')))"

definition is_e :: "char \<Rightarrow> bool" where
  "is_e c = (c = CHR ''e'' \<or> c = CHR ''E'')"

text \<open>
  \<^verbatim>\<open>float(value)\<close>, with the result idealised as a real number. The texts
  \<^verbatim>\<open>inf\<close>, \<^verbatim>\<open>infinity\<close> and \<^verbatim>\<open>nan\<close>, which Python accepts, have no real value,
  and digit-group underscores are not read: both are outside the model.
\<close>

fun py_float :: "attr \<Rightarrow> error + real" where
  "py_float (IntV i) = Inr (of_int i)"
| "py_float (Str s) =
     (case split_sign (strip s) of (neg, body) \<Rightarrow>
        if lower body \<in> {''inf'', ''infinity'', ''nan''} \<or> CHR ''_'' \<in> set body
          then Inl (Unmodelled ''float'')
        else bindE (mantissa (takeWhile (\<lambda>c. \<not> is_e c) body)) (\<lambda>m.
             bindE (exponent (dropWhile (\<lambda>c. \<not> is_e c) body)) (\<lambda>p.
             Inr (if neg then - (m * p) else m * p))))"

subsection \<open>Rasters\<close>

type_synonym raster = "real list list"

definition nrows :: "raster \<Rightarrow> nat" where
  "nrows data = length data"

definition ncols :: "raster \<Rightarrow> nat" where
  "ncols data = (case data of [] \<Rightarrow> 0 | row # _ \<Rightarrow> length row)"

text \<open>\<^verbatim>\<open>data * k\<close> and \<^verbatim>\<open>data *= k\<close> for a scalar \<open>k\<close>.\<close>

definition scale :: "raster \<Rightarrow> real \<Rightarrow> raster" where
  "scale data k = map (map (\<lambda>v. v * k)) data"

text \<open>
  \<^verbatim>\<open>data -= other\<close> for two 2-D arrays. NumPy broadcasts \<open>other\<close> to the shape of
  \<open>data\<close>: each of its two dimensions must equal that of \<open>data\<close> or be 1; otherwise
  the statement raises \<^verbatim>\<open>ValueError\<close>.
\<close>

definition isub :: "raster \<Rightarrow> raster \<Rightarrow> error + raster" where
  "isub data other =
     (let m = nrows data; n = ncols data; p = nrows other; q = ncols other
      in if (p = m \<or> p = 1) \<and> (q = n \<or> q = 1)
         then Inr (map (\<lambda>i. map (\<lambda>j. data ! i ! j
                                   - other ! (if p = 1 then 0 else i) ! (if q = 1 then 0 else j))
                              [0..<n]) [0..<m])
         else Inl (ValueError ''operands could not be broadcast together''))"

text \<open>
  An index into a dimension of size \<open>n\<close>: a negative index counts from the end, an
  index out of range raises \<^verbatim>\<open>IndexError\<close>.
\<close>

definition py_index :: "nat \<Rightarrow> int \<Rightarrow> error + nat" where
  "py_index n i =
     (if 0 \<le> i \<and> i < int n then Inr (nat i)
      else if - int n \<le> i \<and> i < 0 then Inr (nat (i + int n))
      else Inl IndexError)"

text \<open>
  \<^verbatim>\<open>data[y, x]\<close>: a scalar copied out of the array. The column index is checked
  against the length of the row it selects; all rows of an array have the same length.
\<close>

definition getitem2 :: "raster \<Rightarrow> int \<Rightarrow> int \<Rightarrow> error + real" where
  "getitem2 data y x =
     bindE (py_index (nrows data) y) (\<lambda>i.
     bindE (py_index (length (data ! i)) x) (\<lambda>j.
     Inr (data ! i ! j)))"

text \<open>\<^verbatim>\<open>data -= data[y, x]\<close>.\<close>

definition sub_ref :: "raster \<Rightarrow> int \<Rightarrow> int \<Rightarrow> error + raster" where
  "sub_ref data y x = bindE (getitem2 data y x) (\<lambda>v. Inr (map (map (\<lambda>c. c - v)) data))"

text \<open>\<^verbatim>\<open>if inps.ref_yx: data -= data[inps.ref_yx[0], inps.ref_yx[1]]\<close>.\<close>

definition ref_subtract :: "(int \<times> int) option \<Rightarrow> raster \<Rightarrow> error + raster" where
  "ref_subtract ref data = (case ref of None \<Rightarrow> Inr data | Some (y, x) \<Rightarrow> sub_ref data y x)"

text \<open>The negated raster, to state antisymmetry.\<close>

definition neg :: "raster \<Rightarrow> raster" where
  "neg data = map (map uminus) data"

subsection \<open>Paths and parsed arguments\<close>

text \<open>
  \<^verbatim>\<open>os.path.splitext(p)[0]\<close> on POSIX paths: the extension starts at the last dot of
  the last path component, unless only dots precede it there.
\<close>

definition splitext_root :: "string \<Rightarrow> string" where
  "splitext_root p =
     (let rbase = takeWhile (\<lambda>c. c \<noteq> CHR ''/'') (rev p);
          rext = takeWhile (\<lambda>c. c \<noteq> CHR ''.'') rbase
      in if length rext < length rbase \<and> list_ex (\<lambda>c. c \<noteq> CHR ''.'') (drop (length rext + 1) rbase)
         then take (length p - (length rext + 1)) p
         else p)"

text \<open>
  The namespace returned by \<^verbatim>\<open>parser.parse_args\<close>; the field \<open>infile\<close> is
  \<^verbatim>\<open>inps.file\<close>.
\<close>

record inps =
  infile :: string
  dset :: "string option"
  outfile :: "string option"
  ref_yx :: "(int \<times> int) option"

text \<open>\<^verbatim>\<open>not s\<close> for an optional string: \<^verbatim>\<open>None\<close> and the empty string are false.\<close>

definition falsy :: "string option \<Rightarrow> bool" where
  "falsy s = (case s of None \<Rightarrow> True | Some t \<Rightarrow> t = [])"

text \<open>
  \<^verbatim>\<open>if not inps.outfile: inps.outfile = ...\<close>: the default name is computed only when
  the caller gave none.
\<close>

definition default_outfile :: "string option \<Rightarrow> error + string \<Rightarrow> error + string" where
  "default_outfile given dflt = (case given of None \<Rightarrow> dflt | Some s \<Rightarrow> if s = [] then dflt else Inr s)"

text \<open>\<^verbatim>\<open>'{}{}'.format(stem, atr['FILE_TYPE'])\<close>.\<close>

definition with_file_type :: "string \<Rightarrow> atr \<Rightarrow> error + string" where
  "with_file_type stem atr = bindE (getitem atr ''FILE_TYPE'') (\<lambda>t. Inr (stem @ py_str t))"

definition geo_prefix :: "string \<Rightarrow> string \<Rightarrow> string" where
  "geo_prefix file_name out = (if startswith file_name ''geo_'' then ''geo_'' @ out else out)"

subsection \<open>The collaborators outside this file\<close>

text \<open>
  The functions \<^verbatim>\<open>read_data\<close> and \<^verbatim>\<open>cmd_line_parse\<close> call into other modules of
  the package. They are parameters of the model, one field each:
  \<^item> \<^verbatim>\<open>readfile.read_attribute(file)\<close>, the attributes of a file, all text;
  \<^item> \<^verbatim>\<open>readfile.read(file, datasetName=name)[0]\<close>, one 2-D raster;
  \<^item> \<^verbatim>\<open>readfile.get_slice_list(file)\<close>;
  \<^item> \<^verbatim>\<open>timeseries(file).get_date_list()\<close> and \<^verbatim>\<open>HDFEOS(file).get_date_list()\<close>;
  \<^item> \<^verbatim>\<open>view.check_dataset_input(slice_list, name)[0]\<close>, the list of matching slice names;
  \<^item> \<^verbatim>\<open>ptime.yyyymmdd\<close> on one date (on a list it is applied to each element);
  \<^item> \<^verbatim>\<open>writefile.write(data, out_file=..., metadata=...)\<close>.
\<close>

record ext =
  readfile_read_attribute :: "string \<Rightarrow> error + (string \<rightharpoonup> string)"
  readfile_read :: "string \<Rightarrow> string option \<Rightarrow> error + raster"
  readfile_get_slice_list :: "string \<Rightarrow> error + string list"
  timeseries_get_date_list :: "string \<Rightarrow> error + string list"
  HDFEOS_get_date_list :: "string \<Rightarrow> error + string list"
  view_check_dataset_input :: "string list \<Rightarrow> string \<Rightarrow> error + string list"
  ptime_yyyymmdd :: "string \<Rightarrow> error + string"
  writefile_write :: "raster \<Rightarrow> string \<Rightarrow> (string \<rightharpoonup> string) \<Rightarrow> error + unit"

text \<open>
  Every access to a file is recorded, in order, in a log that is threaded through the
  computation: a computation takes the log so far and returns its result, or the
  exception that stopped it, with the extended log.
\<close>

datatype event =
    ReadAttribute string
  | ReadData string "string option"
  | GetSliceList string
  | GetDateList string
  | WriteFile string

type_synonym 'a io = "event list \<Rightarrow> (error + 'a) \<times> event list"

definition io_return :: "'a \<Rightarrow> 'a io" where
  "io_return x = (\<lambda>evs. (Inr x, evs))"

definition io_raise :: "error \<Rightarrow> 'a io" where
  "io_raise e = (\<lambda>evs. (Inl e, evs))"

definition io_lift :: "error + 'a \<Rightarrow> 'a io" where
  "io_lift r = (\<lambda>evs. (r, evs))"

definition io_call :: "event \<Rightarrow> error + 'a \<Rightarrow> 'a io" where
  "io_call ev r = (\<lambda>evs. (r, evs @ [ev]))"

definition io_bind :: "'a io \<Rightarrow> ('a \<Rightarrow> 'b io) \<Rightarrow> 'b io" where
  "io_bind m f =
     (\<lambda>evs. case m evs of
               (Inl e, evs') \<Rightarrow> (Inl e, evs')
             | (Inr x, evs') \<Rightarrow> f x evs')"

definition read_slice :: "ext \<Rightarrow> string \<Rightarrow> string option \<Rightarrow> raster io" where
  "read_slice env file_name name = io_call (ReadData file_name name) (readfile_read env file_name name)"

subsection \<open>Default sub-product: \<^verbatim>\<open>cmd_line_parse\<close>\<close>

definition no_dataset_msg :: "string \<Rightarrow> string" where
  "no_dataset_msg k = ''NO input dataset! It'' @ [CHR 0x27] @ ''s required for '' @ k @ '' file''"

definition cmd_line_parse :: "ext \<Rightarrow> inps \<Rightarrow> inps io" where
  "cmd_line_parse env inps =
     (if falsy (dset inps) then
        io_bind (io_call (ReadAttribute (infile inps)) (readfile_read_attribute env (infile inps))) (\<lambda>atr.
        io_bind (io_lift (getitem atr ''FILE_TYPE'')) (\<lambda>k.
        if k = ''ifgramStack'' \<or> k = ''HDFEOS'' then io_raise (PyException (no_dataset_msg k))
        else if k = ''timeseries'' then
          io_bind (io_call (GetDateList (infile inps)) (timeseries_get_date_list env (infile inps))) (\<lambda>date_list.
          io_bind (io_lift (final date_list)) (\<lambda>d.
          io_return (inps\<lparr>dset := Some d\<rparr>)))
        else io_return inps))
      else io_return inps)"

subsection \<open>The dispatcher: \<^verbatim>\<open>read_data\<close>\<close>

text \<open>
  \<^verbatim>\<open>range2phase = -4 * np.pi / float(atr['WAVELENGTH'])\<close>: a division of Python
  floats, which raises \<^verbatim>\<open>ZeroDivisionError\<close> on a zero wavelength.
\<close>

definition range2phase_of :: "atr \<Rightarrow> error + real" where
  "range2phase_of atr =
     bindE (getitem atr ''WAVELENGTH'') (\<lambda>v.
     bindE (py_float v) (\<lambda>w.
     if w = 0 then Inl ZeroDivisionError else Inr (- 4 * pi / w)))"

text \<open>
  \<^verbatim>\<open>atr['REF_DATE']\<close> used as a date. The key is never touched by the override, so
  its value is the text read from the file; an integer there cannot arise and is
  answered with \<^verbatim>\<open>TypeError\<close>.
\<close>

definition getitem_text :: "atr \<Rightarrow> string \<Rightarrow> error + string" where
  "getitem_text atr key =
     bindE (getitem atr key) (\<lambda>v. case v of Str s \<Rightarrow> Inr s | IntV _ \<Rightarrow> Inl TypeError)"

text \<open>
  The epoch pair of a token \<^verbatim>\<open>date1_date2\<close> or \<^verbatim>\<open>date2\<close> (lines 109-113 and
  142-146): with an underscore, the pieces are normalised and unpacked into two dates;
  without, the first date is the stored \<^verbatim>\<open>REF_DATE\<close>.
\<close>

definition date_pair :: "ext \<Rightarrow> atr \<Rightarrow> string \<Rightarrow> error + (string \<times> string)" where
  "date_pair env atr token =
     (if CHR ''_'' \<in> set token
      then bindE (mapE (ptime_yyyymmdd env) (split CHR ''_'' token)) unpack2
      else bindE (getitem_text atr ''REF_DATE'') (\<lambda>date1.
           bindE (ptime_yyyymmdd env token) (\<lambda>date2.
           Inr (date1, date2))))"

text \<open>\<^verbatim>\<open>atr['DATE'] = date1[2:8]\<close> and \<^verbatim>\<open>atr['DATE12'] = '{}-{}'.format(date1[2:8], date2[2:8])\<close>.\<close>

definition set_dates :: "atr \<Rightarrow> string \<Rightarrow> string \<Rightarrow> atr" where
  "set_dates atr date1 date2 =
     atr(''DATE'' \<mapsto> Str (slice_2_8 date1),
         ''DATE12'' \<mapsto> Str (slice_2_8 date1 @ ''-'' @ slice_2_8 date2))"

text \<open>The branch \<^verbatim>\<open>k == 'velocity'\<close> (lines 92-105).\<close>

definition read_velocity :: "ext \<Rightarrow> inps \<Rightarrow> atr \<Rightarrow> real \<Rightarrow> (raster \<times> atr \<times> string) io" where
  "read_velocity env inps atr range2phase =
     io_bind (read_slice env (infile inps) None) (\<lambda>raw.
     io_bind (io_lift (ref_subtract (ref_yx inps) (scale raw range2phase))) (\<lambda>data.
     let atr = atr(''FILE_TYPE'' \<mapsto> Str ''.unw'', ''UNIT'' \<mapsto> Str ''radian'')
     in io_bind (io_lift (default_outfile (outfile inps)
                            (with_file_type (splitext_root (infile inps)) atr))) (\<lambda>out.
        io_return (data, atr, out))))"

text \<open>The branch \<^verbatim>\<open>k == 'timeseries'\<close> (lines 107-133).\<close>

definition read_timeseries :: "ext \<Rightarrow> inps \<Rightarrow> atr \<Rightarrow> real \<Rightarrow> (raster \<times> atr \<times> string) io" where
  "read_timeseries env inps atr range2phase =
     (case dset inps of
        None \<Rightarrow> io_raise TypeError
      | Some token \<Rightarrow>
          io_bind (io_lift (date_pair env atr token)) (\<lambda>(date1, date2).
          io_bind (read_slice env (infile inps) (Some date2)) (\<lambda>data.
          io_bind (read_slice env (infile inps) (Some date1)) (\<lambda>other.
          io_bind (io_lift (isub data other)) (\<lambda>data.
          io_bind (io_lift (ref_subtract (ref_yx inps) (scale data range2phase))) (\<lambda>data.
          let atr = (set_dates atr date1 date2)(''FILE_TYPE'' \<mapsto> Str ''.unw'', ''UNIT'' \<mapsto> Str ''radian'')
          in io_bind (io_lift (default_outfile (outfile inps)
                                 (Inr (geo_prefix (infile inps) (date1 @ ''_'' @ date2 @ ''.unw''))))) (\<lambda>out.
             io_return (data, atr, out))))))))"

text \<open>
  The branch \<^verbatim>\<open>k == 'HDFEOS'\<close> (lines 135-188), in four steps: the epoch pair, the
  raster, the metadata, the output name.
\<close>

definition no_dash_msg :: "string \<Rightarrow> string" where
  "no_dash_msg dname =
     ''No '' @ [CHR 0x27] @ ''-'' @ [CHR 0x27] @ '' in input dataset! It is required for '' @ dname"

definition HDFEOS_dates :: "ext \<Rightarrow> inps \<Rightarrow> atr \<Rightarrow> string \<Rightarrow> string \<Rightarrow> (string \<times> string) io" where
  "HDFEOS_dates env inps atr token dname =
     (if dname = ''displacement'' then
        (if CHR ''-'' \<in> set token
         then io_lift (bindE (case split CHR ''-'' token of
                                _ # suffix # _ \<Rightarrow> Inr suffix
                              | _ \<Rightarrow> Inl IndexError) (date_pair env atr))
         else io_raise (ValueError (no_dash_msg dname)))
      else
        io_bind (io_call (GetDateList (infile inps)) (HDFEOS_get_date_list env (infile inps))) (\<lambda>date_list.
        io_bind (io_lift (first date_list)) (\<lambda>date1.
        io_bind (io_lift (final date_list)) (\<lambda>date2.
        io_return (date1, date2)))))"

text \<open>\<^verbatim>\<open>view.check_dataset_input(slice_list, name)[0][0]\<close>.\<close>

definition resolve_slice :: "ext \<Rightarrow> string list \<Rightarrow> string \<Rightarrow> error + string" where
  "resolve_slice env slice_list name = bindE (view_check_dataset_input env slice_list name) first"

definition HDFEOS_raster ::
  "ext \<Rightarrow> inps \<Rightarrow> real \<Rightarrow> string \<Rightarrow> string \<Rightarrow> string \<Rightarrow> string \<Rightarrow> raster io" where
  "HDFEOS_raster env inps range2phase token dname date1 date2 =
     io_bind (io_call (GetSliceList (infile inps)) (readfile_get_slice_list env (infile inps))) (\<lambda>slice_list.
     if contains token ''displacement'' then
       io_bind (io_lift (resolve_slice env slice_list (dname @ ''-'' @ date1))) (\<lambda>slice_name1.
       io_bind (io_lift (resolve_slice env slice_list (dname @ ''-'' @ date2))) (\<lambda>slice_name2.
       io_bind (read_slice env (infile inps) (Some slice_name1)) (\<lambda>data.
       io_bind (read_slice env (infile inps) (Some slice_name2)) (\<lambda>other.
       io_bind (io_lift (isub data other)) (\<lambda>data.
       io_lift (ref_subtract (ref_yx inps) (scale data range2phase)))))))
     else
       io_bind (io_lift (resolve_slice env slice_list token)) (\<lambda>slice_name.
       read_slice env (infile inps) (Some slice_name)))"

definition HDFEOS_metadata :: "atr \<Rightarrow> string \<Rightarrow> string \<Rightarrow> string \<Rightarrow> string \<Rightarrow> error + atr" where
  "HDFEOS_metadata atr token dname date1 date2 =
     (let atr = set_dates atr date1 date2
      in if dname = ''displacement''
           then Inr (atr(''FILE_TYPE'' \<mapsto> Str ''.unw'', ''UNIT'' \<mapsto> Str ''radian''))
         else if contains (lower dname) ''coherence''
           then Inr (atr(''FILE_TYPE'' \<mapsto> Str ''.cor'', ''UNIT'' \<mapsto> Str ''1''))
         else if dname = ''height''
           then Inr (atr(''FILE_TYPE'' \<mapsto> Str ''.dem'', ''DATA_TYPE'' \<mapsto> Str ''int16''))
         else Inl (ValueError (''unrecognized input dataset type: '' @ token)))"

definition read_HDFEOS :: "ext \<Rightarrow> inps \<Rightarrow> atr \<Rightarrow> real \<Rightarrow> (raster \<times> atr \<times> string) io" where
  "read_HDFEOS env inps atr range2phase =
     (case dset inps of
        None \<Rightarrow> io_raise AttributeError
      | Some token \<Rightarrow>
          (case split CHR ''-'' token of
             [] \<Rightarrow> io_raise IndexError
           | dname # _ \<Rightarrow>
               io_bind (HDFEOS_dates env inps atr token dname) (\<lambda>(date1, date2).
               io_bind (HDFEOS_raster env inps range2phase token dname date1 date2) (\<lambda>data.
               io_bind (io_lift (HDFEOS_metadata atr token dname date1 date2)) (\<lambda>atr.
               io_bind (io_lift (default_outfile (outfile inps)
                                   (with_file_type (date1 @ ''_'' @ date2) atr))) (\<lambda>out.
               io_return (data, atr, out)))))))"

text \<open>The branch \<^verbatim>\<open>k == 'ifgramStack'\<close> (lines 190-222).\<close>

definition stack_reference :: "atr \<Rightarrow> string \<Rightarrow> raster \<Rightarrow> error + raster" where
  "stack_reference atr dname data =
     (if startswith dname ''unwrapPhase'' then
        (if atr ''REF_X'' \<noteq> None
         then bindE (bindE (getitem atr ''REF_Y'') py_int) (\<lambda>y.
              bindE (bindE (getitem atr ''REF_X'') py_int) (\<lambda>x.
              sub_ref data y x))
         else Inr data)
      else Inr data)"

definition stack_metadata :: "atr \<Rightarrow> string \<Rightarrow> string \<Rightarrow> string \<Rightarrow> string \<Rightarrow> error + atr" where
  "stack_metadata atr token dname date1 date2 =
     (let atr = set_dates atr date1 date2
      in if startswith dname ''unwrapPhase''
           then Inr (atr(''FILE_TYPE'' \<mapsto> Str ''.unw'', ''UNIT'' \<mapsto> Str ''radian''))
         else if dname = ''coherence''
           then Inr (atr(''FILE_TYPE'' \<mapsto> Str ''.cor'', ''UNIT'' \<mapsto> Str ''1''))
         else if dname = ''wrapPhase''
           then Inr (atr(''FILE_TYPE'' \<mapsto> Str ''.int'', ''UNIT'' \<mapsto> Str ''radian''))
         else Inl (ValueError (''unrecognized dataset type: '' @ token)))"

definition read_ifgramStack :: "ext \<Rightarrow> inps \<Rightarrow> atr \<Rightarrow> (raster \<times> atr \<times> string) io" where
  "read_ifgramStack env inps atr =
     (case dset inps of
        None \<Rightarrow> io_raise AttributeError
      | Some token \<Rightarrow>
          io_bind (io_lift (unpack2 (split CHR ''-'' token))) (\<lambda>(dname, date12).
          io_bind (io_lift (unpack2 (split CHR ''_'' date12))) (\<lambda>(date1, date2).
          io_bind (read_slice env (infile inps) (Some token)) (\<lambda>data.
          io_bind (io_lift (stack_reference atr dname data)) (\<lambda>data.
          io_bind (io_lift (stack_metadata atr token dname date1 date2)) (\<lambda>atr.
          io_bind (io_lift (default_outfile (outfile inps)
                              (bindE (with_file_type date12 atr)
                                 (\<lambda>out. Inr (geo_prefix (infile inps) out))))) (\<lambda>out.
          io_return (data, atr, out))))))))"

text \<open>
  The last branch (lines 224-251), for every other file type \<open>k\<close>. The slice named by
  the token is read first; three of the four cases then read the file again without a
  dataset name and keep that raster.
\<close>

definition generic_kind :: "ext \<Rightarrow> inps \<Rightarrow> atr \<Rightarrow> string \<Rightarrow> raster \<Rightarrow> (raster \<times> atr) io" where
  "generic_kind env inps atr k data =
     (if contains (lower k) ''coherence'' then
        io_bind (read_slice env (infile inps) None) (\<lambda>again.
        io_return (again, atr(''FILE_TYPE'' \<mapsto> Str ''.cor'')))
      else if k = ''mask'' then
        io_bind (read_slice env (infile inps) None) (\<lambda>again.
        io_return (again, atr(''FILE_TYPE'' \<mapsto> Str ''.msk'', ''DATA_TYPE'' \<mapsto> Str ''byte'')))
      else if k = ''geometry'' \<and> dset inps = Some ''height'' then
        (if atr ''Y_FIRST'' \<noteq> None then
           io_bind (read_slice env (infile inps) None) (\<lambda>again.
           io_return (again, atr(''FILE_TYPE'' \<mapsto> Str ''.dem'', ''DATA_TYPE'' \<mapsto> Str ''int16'',
                                 ''UNIT'' \<mapsto> Str ''m'')))
         else io_return (data, atr(''FILE_TYPE'' \<mapsto> Str ''.hgt'', ''UNIT'' \<mapsto> Str ''m'')))
      else io_return (data, atr(''FILE_TYPE'' \<mapsto> Str ''.unw'')))"

definition read_generic :: "ext \<Rightarrow> inps \<Rightarrow> atr \<Rightarrow> attr \<Rightarrow> (raster \<times> atr \<times> string) io" where
  "read_generic env inps atr k =
     io_bind (read_slice env (infile inps) (dset inps)) (\<lambda>data.
     case k of
       IntV _ \<Rightarrow> io_raise AttributeError
     | Str kind \<Rightarrow>
         io_bind (generic_kind env inps atr kind data) (\<lambda>(data, atr).
         io_bind (io_lift (default_outfile (outfile inps)
                             (with_file_type (splitext_root (infile inps)) atr))) (\<lambda>out.
         io_return (data, atr, out))))"

text \<open>
  \<^verbatim>\<open>read_data\<close>: the attributes are read, the conversion factor is computed, the
  caller's reference pixel (if any) is stored under \<^verbatim>\<open>REF_Y\<close> and \<^verbatim>\<open>REF_X\<close>, and the
  branch for the file type runs on the dictionary so changed. At the end
  \<^verbatim>\<open>PROCESSOR\<close> is set.
\<close>

definition change_reference :: "atr \<Rightarrow> (int \<times> int) option \<Rightarrow> atr" where
  "change_reference atr ref =
     (case ref of
        None \<Rightarrow> atr
      | Some (y, x) \<Rightarrow> atr(''REF_Y'' \<mapsto> IntV y, ''REF_X'' \<mapsto> IntV x))"

definition dispatch :: "ext \<Rightarrow> inps \<Rightarrow> atr \<Rightarrow> real \<Rightarrow> attr \<Rightarrow> (raster \<times> atr \<times> string) io" where
  "dispatch env inps atr range2phase k =
     (if k = Str ''velocity'' then read_velocity env inps atr range2phase
      else if k = Str ''timeseries'' then read_timeseries env inps atr range2phase
      else if k = Str ''HDFEOS'' then read_HDFEOS env inps atr range2phase
      else if k = Str ''ifgramStack'' then read_ifgramStack env inps atr
      else read_generic env inps atr k)"

definition read_data :: "ext \<Rightarrow> inps \<Rightarrow> (raster \<times> atr \<times> string) io" where
  "read_data env inps =
     io_bind (io_call (ReadAttribute (infile inps)) (readfile_read_attribute env (infile inps))) (\<lambda>stored.
     let atr = (\<lambda>key. map_option Str (stored key))
     in io_bind (io_lift (range2phase_of atr)) (\<lambda>range2phase.
        let atr = change_reference atr (ref_yx inps)
        in io_bind (io_lift (getitem atr ''FILE_TYPE'')) (\<lambda>k.
           io_bind (dispatch env inps atr range2phase k) (\<lambda>(data, atr, out).
           io_return (data, atr(''PROCESSOR'' \<mapsto> Str ''roipac''), out)))))"

subsection \<open>The pipeline: \<^verbatim>\<open>main\<close>\<close>

text \<open>
  \<^verbatim>\<open>main\<close> returns \<^verbatim>\<open>inps.outfile\<close>, which \<^verbatim>\<open>read_data\<close> has set to the name it
  returns.
\<close>

definition main :: "ext \<Rightarrow> inps \<Rightarrow> string io" where
  "main env inps =
     io_bind (cmd_line_parse env inps) (\<lambda>inps.
     io_bind (read_data env inps) (\<lambda>(data, atr, out_file).
     io_bind (io_lift (clean_metadata4roipac atr)) (\<lambda>atr.
     io_bind (io_call (WriteFile out_file) (writefile_write env data out_file atr)) (\<lambda>_.
     io_return out_file))))"

text \<open>The raster of a result, or the exception.\<close>

definition raster_of :: "(error + raster \<times> atr \<times> string) \<times> event list \<Rightarrow> error + raster" where
  "raster_of r = (case fst r of Inl e \<Rightarrow> Inl e | Inr (data, atr, out) \<Rightarrow> Inr data)"

subsection \<open>A container held in memory\<close>

text \<open>
  One instance of the collaborators, for the concrete runs below. Every path names the
  same container, given by its stored attributes, its rasters by dataset name (the
  entry under \<open>None\<close> is what a read without a dataset name returns) and its list of
  dates. A slice name is resolved to the stored names equal to it; a date of eight
  characters is returned as it is and one of six gets the century \<^verbatim>\<open>20\<close>; writing
  succeeds.
\<close>

definition memory_ext ::
  "(string \<times> string) list \<Rightarrow> (string option \<times> raster) list \<Rightarrow> string list \<Rightarrow> ext" where
  "memory_ext stored rasters dates =
     \<lparr> readfile_read_attribute = (\<lambda>path. Inr (map_of stored)),
       readfile_read = (\<lambda>path name. case map_of rasters name of
                                        None \<Rightarrow> Inl (External ''no such dataset'')
                                      | Some r \<Rightarrow> Inr r),
       readfile_get_slice_list = (\<lambda>path. Inr (List.map_filter fst rasters)),
       timeseries_get_date_list = (\<lambda>path. Inr dates),
       HDFEOS_get_date_list = (\<lambda>path. Inr dates),
       view_check_dataset_input = (\<lambda>slice_list name. Inr (filter (\<lambda>s. s = name) slice_list)),
       ptime_yyyymmdd = (\<lambda>d. if length d = 8 then Inr d
                              else if length d = 6 then Inr (''20'' @ d)
                              else Inl (External ''date'')),
       writefile_write = (\<lambda>data out_file metadata. Inr ()) \<rparr>"

text \<open>
  A result of \<^verbatim>\<open>read_data\<close> with \<^verbatim>\<open>REF_Y\<close> and \<^verbatim>\<open>REF_X\<close> set in its attributes and
  nothing else changed; an exception is left as it is.
\<close>

definition with_reference ::
  "int \<Rightarrow> int \<Rightarrow> (error + raster \<times> atr \<times> string) \<times> event list
     \<Rightarrow> (error + raster \<times> atr \<times> string) \<times> event list" where
  "with_reference y x r =
     (case r of
        (Inl e, evs) \<Rightarrow> (Inl e, evs)
      | (Inr (data, atr, out), evs) \<Rightarrow>
          (Inr (data, atr(''REF_Y'' \<mapsto> IntV y, ''REF_X'' \<mapsto> IntV x), out), evs))"

text \<open>An attribute of a result, or the exception.\<close>

definition attribute_of ::
  "(error + raster \<times> atr \<times> string) \<times> event list \<Rightarrow> string \<Rightarrow> error + attr option" where
  "attribute_of r key = (case fst r of Inl e \<Rightarrow> Inl e | Inr (data, atr, out) \<Rightarrow> Inr (atr key))"

text \<open>
  A working attribute dictionary for the concrete runs of the sanitizer: keys in upper
  case, in mixed case, and with letters outside ASCII (code point 201 is an upper-case
  E with acute accent, 241 a lower-case n with tilde).
\<close>

definition sample_attributes :: atr where
  "sample_attributes =
     [''LENGTH'' \<mapsto> IntV 120, ''WIDTH'' \<mapsto> Str ''5'', ''Width'' \<mapsto> Str ''5'',
      ''X_STEP'' \<mapsto> IntV 3, [CHR 0xC9] \<mapsto> Str ''1'', CHR 0xF1 # ''AME'' \<mapsto> Str ''2'']"

text \<open>The entry stored under a key in the sanitizer's output, or its exception.\<close>

definition sanitized :: "atr \<Rightarrow> string \<Rightarrow> error + string option" where
  "sanitized atr_in key = bindE (clean_metadata4roipac atr_in) (\<lambda>out. Inr (out key))"

section \<open>Properties\<close>

subsection \<open>The sanitizer\<close>

lemma isupper_LENGTH: "isupper ''LENGTH''"
  by (simp add: isupper_def is_upper_def is_lower_def)

lemma LENGTH_not_dropped: "''LENGTH'' \<notin> set drop_keys"
  by (simp add: drop_keys_def)

lemma fold_pop_if_present:
  "fold pop_if_present ks d key = (if key \<in> set ks then None else d key)"
  by (induction ks arbitrary: d) (auto simp: pop_if_present_def)

text \<open>The three loops together keep exactly the upper-case keys outside the drop list.\<close>

lemma clean_metadata4roipac_eq:
  "clean_metadata4roipac atr_in =
     (case atr_in ''LENGTH'' of
        None \<Rightarrow> Inl (KeyError ''LENGTH'')
      | Some v \<Rightarrow>
          Inr ((\<lambda>key. if isupper key \<and> key \<notin> set drop_keys
                      then map_option py_str (atr_in key) else None)
               (''FILE_LENGTH'' \<mapsto> py_str v)))"
proof -
  have kept: "pop_not_upper (fold pop_if_present drop_keys (\<lambda>key. map_option py_str (atr_in key)))
      = (\<lambda>key. if isupper key \<and> key \<notin> set drop_keys
                then map_option py_str (atr_in key) else None)"
    by (rule ext) (simp add: pop_not_upper_def fold_pop_if_present)
  show ?thesis
    unfolding clean_metadata4roipac_def Let_def kept getitem_def
    by (simp add: isupper_LENGTH LENGTH_not_dropped split: option.splits)
qed

lemma isupper_WIDTH: "isupper ''WIDTH''"
  by (simp add: isupper_def is_upper_def is_lower_def)

lemma isupper_not_dropped: "isupper key \<Longrightarrow> key \<notin> set drop_keys"
  by (auto simp: drop_keys_def isupper_def is_lower_def)

lemma isupper_no_lower: "isupper key \<Longrightarrow> \<not> list_ex is_lower key"
  by (simp add: isupper_def)

lemma no_lower_FILE_LENGTH: "\<not> list_ex is_lower ''FILE_LENGTH''" "''FILE_LENGTH'' \<notin> set drop_keys"
  by (simp_all add: is_lower_def drop_keys_def)

text \<open>
  C3, as stated, fails: the upper-case spellings \<^verbatim>\<open>WIDTH\<close> and \<^verbatim>\<open>LENGTH\<close> of two of
  the redundant geometry keys pass the sanitizer.
\<close>

theorem C3_counterexample:
  "sanitized [''LENGTH'' \<mapsto> Str ''10'', ''WIDTH'' \<mapsto> Str ''5''] ''WIDTH'' = Inr (Some ''5'')
   \<and> sanitized [''LENGTH'' \<mapsto> Str ''10'', ''WIDTH'' \<mapsto> Str ''5''] ''LENGTH'' = Inr (Some ''10'')
   \<and> lower ''WIDTH'' = ''width'' \<and> lower ''LENGTH'' = ''length''"
  by (simp add: sanitized_def clean_metadata4roipac_eq bindE_def isupper_WIDTH isupper_LENGTH
      isupper_not_dropped lower_def to_lower_def upper_chars_def lower_chars_def)

text \<open>
  C3, amended: whenever the sanitizer returns, (1) every key of its output is free of
  lower-case characters and is none of the five listed spellings \<^verbatim>\<open>width\<close>,
  \<^verbatim>\<open>Width\<close>, \<^verbatim>\<open>samples\<close>, \<^verbatim>\<open>length\<close>, \<^verbatim>\<open>lines\<close>; (2) every key for which
  \<^verbatim>\<open>isupper\<close> holds passes, with the text of its value (\<^verbatim>\<open>FILE_LENGTH\<close> apart,
  which is overwritten); (3) so \<^verbatim>\<open>WIDTH\<close> is in the output exactly when it is in the
  input, and (4) \<^verbatim>\<open>LENGTH\<close> is always in the output.
\<close>

theorem C3_sanitized_keys:
  assumes "clean_metadata4roipac atr_in = Inr out"
  shows "(out key \<noteq> None \<longrightarrow> \<not> list_ex is_lower key \<and> key \<notin> set drop_keys)
       \<and> (isupper key \<and> key \<noteq> ''FILE_LENGTH'' \<longrightarrow> out key = map_option py_str (atr_in key))
       \<and> out ''WIDTH'' = map_option py_str (atr_in ''WIDTH'')
       \<and> (\<exists>v. atr_in ''LENGTH'' = Some v \<and> out ''LENGTH'' = Some (py_str v))"
proof -
  from assms obtain v where len: "atr_in ''LENGTH'' = Some v"
    and out: "out = (\<lambda>key. if isupper key \<and> key \<notin> set drop_keys
                            then map_option py_str (atr_in key) else None)
                    (''FILE_LENGTH'' \<mapsto> py_str v)"
    by (auto simp: clean_metadata4roipac_eq split: option.splits)
  have "out key \<noteq> None \<longrightarrow> \<not> list_ex is_lower key \<and> key \<notin> set drop_keys"
    using no_lower_FILE_LENGTH by (auto simp: out isupper_no_lower split: if_splits)
  moreover have "isupper key \<and> key \<noteq> ''FILE_LENGTH'' \<longrightarrow> out key = map_option py_str (atr_in key)"
    by (simp add: out isupper_not_dropped)
  moreover have "out ''WIDTH'' = map_option py_str (atr_in ''WIDTH'')"
    by (simp add: out isupper_WIDTH isupper_not_dropped)
  moreover have "out ''LENGTH'' = Some (py_str v)"
    by (simp add: out len isupper_LENGTH isupper_not_dropped)
  ultimately show ?thesis using len by blast
qed

theorem C3_sanitized_keys_witness:
  "sanitized sample_attributes ''X_STEP'' = Inr (Some ''3'')
   \<and> \<not> list_ex is_lower ''X_STEP'' \<and> ''X_STEP'' \<notin> set drop_keys
   \<and> sanitized sample_attributes ''WIDTH'' = Inr (Some ''5'')
   \<and> sanitized sample_attributes ''LENGTH'' = Inr (Some ''120'')
   \<and> sanitized sample_attributes [CHR 0xC9] = Inr (Some ''1'')
   \<and> sanitized sample_attributes ''Width'' = Inr None
   \<and> sanitized sample_attributes (CHR 0xF1 # ''AME'') = Inr None"
proof -
  obtain out where run: "clean_metadata4roipac sample_attributes = Inr out"
    by (simp add: clean_metadata4roipac_eq sample_attributes_def)
  have up: "isupper ''X_STEP''" "isupper [CHR 0xC9]"
    and low: "list_ex is_lower ''Width''" "list_ex is_lower (CHR 0xF1 # ''AME'')"
    by (simp_all add: isupper_def is_upper_def is_lower_def)
  have "out ''X_STEP'' = Some ''3''" "out [CHR 0xC9] = Some ''1''"
    using C3_sanitized_keys [OF run, of "''X_STEP''"] C3_sanitized_keys [OF run, of "[CHR 0xC9]"] up
    by (simp_all add: sample_attributes_def str_of_int_def)
  moreover have "\<not> list_ex is_lower ''X_STEP'' \<and> ''X_STEP'' \<notin> set drop_keys"
    using C3_sanitized_keys [OF run, of "''X_STEP''"] calculation by simp
  moreover have "out ''WIDTH'' = Some ''5''" "out ''LENGTH'' = Some ''120''"
    using C3_sanitized_keys [OF run, of "''WIDTH''"]
    by (simp_all add: sample_attributes_def str_of_int_def)
  moreover have "out ''Width'' = None" "out (CHR 0xF1 # ''AME'') = None"
    using C3_sanitized_keys [OF run, of "''Width''"]
      C3_sanitized_keys [OF run, of "CHR 0xF1 # ''AME''"] low
    by auto
  ultimately show ?thesis
    using run by (simp add: sanitized_def bindE_def)
qed

text \<open>
  C5, as stated, fails: the sanitizer does not rename \<^verbatim>\<open>LENGTH\<close>. After the run the
  output holds the value under \<^verbatim>\<open>FILE_LENGTH\<close> and still under \<^verbatim>\<open>LENGTH\<close>.
\<close>

theorem C5_counterexample:
  "sanitized [''LENGTH'' \<mapsto> Str ''10''] ''LENGTH'' = Inr (Some ''10'')
   \<and> sanitized [''LENGTH'' \<mapsto> Str ''10''] ''FILE_LENGTH'' = Inr (Some ''10'')"
  by (simp add: sanitized_def clean_metadata4roipac_eq bindE_def isupper_LENGTH isupper_not_dropped)

text \<open>
  C5, amended: the sanitizer copies \<^verbatim>\<open>LENGTH\<close> to \<^verbatim>\<open>FILE_LENGTH\<close>. It fails with the
  lookup error \<^verbatim>\<open>KeyError('LENGTH')\<close> when the input has no \<^verbatim>\<open>LENGTH\<close>; otherwise it
  returns, and its output holds the text of the original \<^verbatim>\<open>LENGTH\<close> value under
  \<^verbatim>\<open>FILE_LENGTH\<close> and, unchanged, under \<^verbatim>\<open>LENGTH\<close>.
\<close>

theorem C5_FILE_LENGTH:
  "(atr_in ''LENGTH'' = None \<longrightarrow> clean_metadata4roipac atr_in = Inl (KeyError ''LENGTH''))
   \<and> (atr_in ''LENGTH'' = Some v \<longrightarrow>
         sanitized atr_in ''FILE_LENGTH'' = Inr (Some (py_str v))
       \<and> sanitized atr_in ''LENGTH'' = Inr (Some (py_str v)))"
  by (simp add: sanitized_def clean_metadata4roipac_eq bindE_def isupper_LENGTH isupper_not_dropped)

theorem C5_FILE_LENGTH_witness:
  "[''WIDTH'' \<mapsto> Str ''5''] ''LENGTH'' = None
   \<and> clean_metadata4roipac [''WIDTH'' \<mapsto> Str ''5''] = Inl (KeyError ''LENGTH'')
   \<and> sample_attributes ''LENGTH'' = Some (IntV 120)
   \<and> sanitized sample_attributes ''FILE_LENGTH'' = Inr (Some ''120'')
   \<and> sanitized sample_attributes ''LENGTH'' = Inr (Some ''120'')"
  using C5_FILE_LENGTH [of "[''WIDTH'' \<mapsto> Str ''5'']" "Str ''0''"]
        C5_FILE_LENGTH [of sample_attributes "IntV 120"]
  by (simp add: sample_attributes_def str_of_int_def)

subsection \<open>Running computations\<close>

named_theorems io_simps

lemma bindE_simps [io_simps]:
  "bindE (Inr x) f = f x"
  "bindE (Inl e) f = Inl e"
  by (simp_all add: bindE_def)

lemma io_bind_simps [io_simps]:
  "io_bind (io_return x) f evs = f x evs"
  "io_bind (io_raise e) f evs = (Inl e, evs)"
  "io_bind (io_lift (Inr x)) f evs = f x evs"
  "io_bind (io_lift (Inl e)) f evs = (Inl e, evs)"
  "io_bind (io_call ev (Inr x)) f evs = f x (evs @ [ev])"
  "io_bind (io_call ev (Inl e)) f evs = (Inl e, evs @ [ev])"
  by (simp_all add: io_bind_def io_return_def io_raise_def io_lift_def io_call_def)

lemma io_run_simps [io_simps]:
  "io_return x evs = (Inr x, evs)"
  "io_raise e evs = (Inl e, evs)"
  "io_lift r evs = (r, evs)"
  "io_call ev r evs = (r, evs @ [ev])"
  by (simp_all add: io_return_def io_raise_def io_lift_def io_call_def)

lemma io_bind_assoc [io_simps]:
  "io_bind (io_bind m f) g = io_bind m (\<lambda>x. io_bind (f x) g)"
  by (rule ext) (simp add: io_bind_def split: prod.splits sum.splits)

lemma final_last: "xs \<noteq> [] \<Longrightarrow> final xs = Inr (last xs)"
  by (cases xs rule: rev_cases) (simp_all add: final_def)

lemma range2phase_of_stored:
  "stored ''WAVELENGTH'' = Some wl \<Longrightarrow> py_float (Str wl) = Inr w \<Longrightarrow> w \<noteq> 0 \<Longrightarrow>
   range2phase_of (\<lambda>key. map_option Str (stored key)) = Inr (- 4 * pi / w)"
  by (simp add: range2phase_of_def getitem_def io_simps)

lemma change_reference_other:
  "key \<noteq> ''REF_Y'' \<Longrightarrow> key \<noteq> ''REF_X'' \<Longrightarrow> change_reference atr ref key = atr key"
  by (simp add: change_reference_def split: option.splits prod.splits)

lemma default_outfile_Inr:
  "default_outfile given (Inr d)
     = Inr (case given of None \<Rightarrow> d | Some s \<Rightarrow> if s = [] then d else s)"
  by (simp add: default_outfile_def split: option.splits)

text \<open>Unfolding sets for the concrete runs.\<close>

lemmas eval_text = split_sign_def strip_def is_space_def lower_def to_lower_def upper_chars_def
  lower_chars_def is_e_def
  mantissa_def exponent_def all_digits_def is_digit_def nat_of_digits_def digit_val_def

lemmas eval_raster = scale_def ref_subtract_def sub_ref_def getitem2_def py_index_def
  nrows_def ncols_def

subsection \<open>The default sub-product\<close>

text \<open>
  C8: with no sub-product token, a file of type \<^verbatim>\<open>ifgramStack\<close> or \<^verbatim>\<open>HDFEOS\<close> makes
  the program stop with the exception of \<^verbatim>\<open>cmd_line_parse\<close>, the only file access
  made being the reading of the attributes (no raster is read); for a \<^verbatim>\<open>timeseries\<close>
  file with a non-empty date list the token becomes the last stored date.
\<close>

theorem C8_missing_dataset:
  assumes "falsy (dset inps)"
    and "readfile_read_attribute env (infile inps) = Inr stored"
  shows "(stored ''FILE_TYPE'' = Some k \<and> (k = ''ifgramStack'' \<or> k = ''HDFEOS'') \<longrightarrow>
            main env inps evs
              = (Inl (PyException (no_dataset_msg k)), evs @ [ReadAttribute (infile inps)]))
       \<and> (stored ''FILE_TYPE'' = Some ''timeseries''
            \<and> timeseries_get_date_list env (infile inps) = Inr dates \<and> dates \<noteq> [] \<longrightarrow>
            cmd_line_parse env inps evs
              = (Inr (inps\<lparr>dset := Some (last dates)\<rparr>),
                 evs @ [ReadAttribute (infile inps), GetDateList (infile inps)]))"
  using assms
  by (auto simp: main_def cmd_line_parse_def getitem_def final_last io_simps)

theorem C8_missing_dataset_witness:
  "falsy None
   \<and> main (memory_ext [(''FILE_TYPE'', ''HDFEOS'')] [] [])
        \<lparr>infile = ''S1.he5'', dset = None, outfile = None, ref_yx = None\<rparr> []
       = (Inl (PyException (no_dataset_msg ''HDFEOS'')), [ReadAttribute ''S1.he5''])
   \<and> cmd_line_parse (memory_ext [(''FILE_TYPE'', ''timeseries'')] [] [''20040101'', ''20050601''])
        \<lparr>infile = ''ts.h5'', dset = None, outfile = None, ref_yx = None\<rparr> []
       = (Inr \<lparr>infile = ''ts.h5'', dset = Some ''20050601'', outfile = None, ref_yx = None\<rparr>,
          [ReadAttribute ''ts.h5'', GetDateList ''ts.h5''])"
  using C8_missing_dataset [of "\<lparr>infile = ''S1.he5'', dset = None, outfile = None, ref_yx = None\<rparr>"
          "memory_ext [(''FILE_TYPE'', ''HDFEOS'')] [] []" "map_of [(''FILE_TYPE'', ''HDFEOS'')]"
          "''HDFEOS''" "[]" "[]"]
        C8_missing_dataset [of "\<lparr>infile = ''ts.h5'', dset = None, outfile = None, ref_yx = None\<rparr>"
          "memory_ext [(''FILE_TYPE'', ''timeseries'')] [] [''20040101'', ''20050601'']"
          "map_of [(''FILE_TYPE'', ''timeseries'')]"
          "''timeseries''" "[]" "[''20040101'', ''20050601'']"]
  by (simp add: falsy_def memory_ext_def)

subsection \<open>Velocity\<close>

text \<open>
  C6: for a \<^verbatim>\<open>velocity\<close> file whose wavelength reads as \<open>w \<noteq> 0\<close>, \<^verbatim>\<open>read_data\<close>
  reads the raster without a dataset name, multiplies it by \<open>- 4 * pi / w\<close>, subtracts
  the value at the caller's reference pixel when one is given, and returns the result
  with \<^verbatim>\<open>FILE_TYPE = '.unw'\<close> and \<^verbatim>\<open>UNIT = 'radian'\<close>. The instance below it is
  Scenario A: wavelength 0.0562 and the constant raster 0.01.
\<close>

theorem C6_velocity:
  assumes "readfile_read_attribute env (infile inps) = Inr stored"
    and "stored ''FILE_TYPE'' = Some ''velocity''"
    and "stored ''WAVELENGTH'' = Some wl" and "py_float (Str wl) = Inr w" and "w \<noteq> 0"
    and "readfile_read env (infile inps) None = Inr raw"
    and "ref_subtract (ref_yx inps) (scale raw (- 4 * pi / w)) = Inr data"
  shows "\<exists>atr out. read_data env inps evs
            = (Inr (data, atr, out), evs @ [ReadAttribute (infile inps), ReadData (infile inps) None])
          \<and> atr ''FILE_TYPE'' = Some (Str ''.unw'') \<and> atr ''UNIT'' = Some (Str ''radian'')"
  using assms
  by (simp add: read_data_def Let_def dispatch_def read_velocity_def read_slice_def
      range2phase_of_stored getitem_def change_reference_other with_file_type_def
      default_outfile_Inr io_simps)

theorem C6_velocity_witness:
  "py_float (Str ''0.0562'') = Inr (562 / 10000)
   \<and> raster_of (read_data
        (memory_ext [(''FILE_TYPE'', ''velocity''), (''WAVELENGTH'', ''0.0562'')]
           [(None, [[1 / 100, 1 / 100], [1 / 100, 1 / 100]])] [])
        \<lparr>infile = ''velocity.h5'', dset = None, outfile = None, ref_yx = None\<rparr> [])
       = Inr [[1 / 100 * (- 4 * pi / (562 / 10000)), 1 / 100 * (- 4 * pi / (562 / 10000))],
              [1 / 100 * (- 4 * pi / (562 / 10000)), 1 / 100 * (- 4 * pi / (562 / 10000))]]
   \<and> raster_of (read_data
        (memory_ext [(''FILE_TYPE'', ''velocity''), (''WAVELENGTH'', ''0.0562'')]
           [(None, [[1, 2]])] [])
        \<lparr>infile = ''velocity.h5'', dset = None, outfile = None, ref_yx = Some (0, 0)\<rparr> [])
       = Inr [[0, - 4 * pi / (562 / 10000)]]"
proof -
  have w: "py_float (Str ''0.0562'') = Inr (562 / 10000)"
    by (simp add: eval_text io_simps)
  have a: "ref_subtract None (scale [[1 / 100, 1 / 100], [1 / 100, 1 / 100]] (- 4 * pi / (562 / 10000)))
      = Inr [[1 / 100 * (- 4 * pi / (562 / 10000)), 1 / 100 * (- 4 * pi / (562 / 10000))],
              [1 / 100 * (- 4 * pi / (562 / 10000)), 1 / 100 * (- 4 * pi / (562 / 10000))]]"
    by (simp add: eval_raster)
  have b: "ref_subtract (Some (0, 0)) (scale [[1, 2]] (- 4 * pi / (562 / 10000)))
      = Inr [[0, - 4 * pi / (562 / 10000)]]"
    by (simp add: eval_raster io_simps)
  show ?thesis
    using w
      C6_velocity [of "memory_ext [(''FILE_TYPE'', ''velocity''), (''WAVELENGTH'', ''0.0562'')]
           [(None, [[1 / 100, 1 / 100], [1 / 100, 1 / 100]])] []"
        "\<lparr>infile = ''velocity.h5'', dset = None, outfile = None, ref_yx = None\<rparr>"
        "map_of [(''FILE_TYPE'', ''velocity''), (''WAVELENGTH'', ''0.0562'')]"
        "''0.0562''" "562 / 10000" "[[1 / 100, 1 / 100], [1 / 100, 1 / 100]]" _ "[]", OF _ _ _ w _ _ _]
      C6_velocity [of "memory_ext [(''FILE_TYPE'', ''velocity''), (''WAVELENGTH'', ''0.0562'')]
           [(None, [[1, 2]])] []"
        "\<lparr>infile = ''velocity.h5'', dset = None, outfile = None, ref_yx = Some (0, 0)\<rparr>"
        "map_of [(''FILE_TYPE'', ''velocity''), (''WAVELENGTH'', ''0.0562'')]"
        "''0.0562''" "562 / 10000" "[[1, 2]]" _ "[]", OF _ _ _ w _ _ _]
      a b
    by (auto simp: memory_ext_def raster_of_def)
qed

subsection \<open>Interferogram stacks\<close>

lemma py_index_less: "py_index n i = Inr k \<Longrightarrow> k < n"
  by (auto simp: py_index_def split: if_splits)

lemma sub_ref_zero:
  assumes "sub_ref raw y x = Inr data"
  shows "getitem2 data y x = Inr 0"
proof -
  from assms obtain v where v: "getitem2 raw y x = Inr v"
    and data: "data = map (map (\<lambda>c. c - v)) raw"
    by (auto simp: sub_ref_def bindE_def split: sum.splits)
  from v obtain i j where i: "py_index (nrows raw) y = Inr i"
    and j: "py_index (length (raw ! i)) x = Inr j" and rv: "raw ! i ! j = v"
    by (auto simp: getitem2_def bindE_def split: sum.splits)
  have "i < length raw" using py_index_less [OF i] by (simp add: nrows_def)
  moreover have "j < length (raw ! i)" using py_index_less [OF j] .
  ultimately show ?thesis
    using i j rv by (simp add: getitem2_def data nrows_def io_simps)
qed

lemmas eval_read = read_data_def dispatch_def read_velocity_def read_timeseries_def
  read_HDFEOS_def HDFEOS_dates_def HDFEOS_raster_def HDFEOS_metadata_def resolve_slice_def
  read_ifgramStack_def stack_reference_def stack_metadata_def read_generic_def generic_kind_def
  read_slice_def date_pair_def getitem_text_def set_dates_def change_reference_def
  range2phase_of_def getitem_def with_file_type_def default_outfile_def geo_prefix_def
  startswith_def first_def final_def raster_of_def memory_ext_def Let_def

lemma stack_run:
  assumes "readfile_read_attribute env (infile inps) = Inr stored"
    and "stored ''FILE_TYPE'' = Some ''ifgramStack''"
    and "range2phase_of (\<lambda>key. map_option Str (stored key)) = Inr r2p"
    and "dset inps = Some token"
    and "split CHR ''-'' token = [dname, date12]"
    and "split CHR ''_'' date12 = [date1, date2]"
    and "readfile_read env (infile inps) (Some token) = Inr raw"
    and "startswith dname ''unwrapPhase''"
    and "stack_reference (change_reference (\<lambda>key. map_option Str (stored key)) (ref_yx inps)) dname raw
           = Inr data"
  shows "\<exists>out. read_data env inps evs
           = (Inr (data,
                   (set_dates (change_reference (\<lambda>key. map_option Str (stored key)) (ref_yx inps))
                      date1 date2)
                   (''FILE_TYPE'' \<mapsto> Str ''.unw'', ''UNIT'' \<mapsto> Str ''radian'',
                    ''PROCESSOR'' \<mapsto> Str ''roipac''), out),
              evs @ [ReadAttribute (infile inps), ReadData (infile inps) (Some token)])"
  using assms
  by (simp add: read_data_def Let_def dispatch_def read_ifgramStack_def stack_metadata_def
      read_slice_def getitem_def change_reference_other with_file_type_def
      default_outfile_def io_simps split: option.splits)

text \<open>
  C2, as stated, fails: with the stored reference pixel (0, 0) and the caller's pixel
  (0, 1), the raster \<open>[[1, 2]]\<close> of an \<^verbatim>\<open>unwrapPhase\<close> slice comes back as
  \<open>[[-1, 0]]\<close>. It is not zero at the stored pixel: the override has replaced
  \<^verbatim>\<open>REF_Y\<close> and \<^verbatim>\<open>REF_X\<close> before the branch reads them.
\<close>

theorem C2_counterexample:
  "raster_of (read_data
      (memory_ext [(''FILE_TYPE'', ''ifgramStack''), (''WAVELENGTH'', ''0.0562''),
                   (''REF_Y'', ''0''), (''REF_X'', ''0'')]
         [(Some ''unwrapPhase-20091225_20100723'', [[1, 2]])] [])
      \<lparr>infile = ''ifgramStack.h5'', dset = Some ''unwrapPhase-20091225_20100723'',
        outfile = None, ref_yx = Some (0, 1)\<rparr> [])
     = Inr [[- 1, 0]]
   \<and> getitem2 [[- 1, 0]] 0 0 = Inr (- 1)"
  by (simp add: eval_read eval_text eval_raster io_simps)

text \<open>
  C2, amended: for an \<^verbatim>\<open>unwrapPhase\<close> request on an interferogram stack, the raster
  is referenced to one pixel, at which the result is zero. With a caller-supplied
  pixel it is that pixel, which also replaces \<^verbatim>\<open>REF_Y\<close> and \<^verbatim>\<open>REF_X\<close> in the
  attributes; without one it is the stored pixel, and the stored attributes stay.
\<close>

theorem C2_stack_reference:
  assumes "readfile_read_attribute env (infile inps) = Inr stored"
    and "stored ''FILE_TYPE'' = Some ''ifgramStack''"
    and "range2phase_of (\<lambda>key. map_option Str (stored key)) = Inr r2p"
    and "dset inps = Some token"
    and "split CHR ''-'' token = [dname, date12]"
    and "split CHR ''_'' date12 = [date1, date2]"
    and "readfile_read env (infile inps) (Some token) = Inr raw"
    and "startswith dname ''unwrapPhase''"
    and "sub_ref raw y x = Inr data"
  shows "(ref_yx inps = Some (y, x) \<longrightarrow>
           (\<exists>atr out. read_data env inps evs
                = (Inr (data, atr, out),
                   evs @ [ReadAttribute (infile inps), ReadData (infile inps) (Some token)])
              \<and> atr ''REF_Y'' = Some (IntV y) \<and> atr ''REF_X'' = Some (IntV x)
              \<and> getitem2 data y x = Inr 0))
       \<and> (ref_yx inps = None \<and> stored ''REF_Y'' = Some sy \<and> stored ''REF_X'' = Some sx
            \<and> py_int (Str sy) = Inr y \<and> py_int (Str sx) = Inr x \<longrightarrow>
           (\<exists>atr out. read_data env inps evs
                = (Inr (data, atr, out),
                   evs @ [ReadAttribute (infile inps), ReadData (infile inps) (Some token)])
              \<and> atr ''REF_Y'' = Some (Str sy) \<and> atr ''REF_X'' = Some (Str sx)
              \<and> getitem2 data y x = Inr 0))"
proof (intro conjI impI)
  assume ref: "ref_yx inps = Some (y, x)"
  have "stack_reference (change_reference (\<lambda>key. map_option Str (stored key)) (ref_yx inps)) dname raw
      = Inr data"
    using assms ref by (simp add: stack_reference_def change_reference_def getitem_def io_simps)
  from stack_run [OF assms(1-8) this, of evs] sub_ref_zero [OF assms(9)] ref
  show "\<exists>atr out. read_data env inps evs
                = (Inr (data, atr, out),
                   evs @ [ReadAttribute (infile inps), ReadData (infile inps) (Some token)])
              \<and> atr ''REF_Y'' = Some (IntV y) \<and> atr ''REF_X'' = Some (IntV x)
              \<and> getitem2 data y x = Inr 0"
    by (auto simp: set_dates_def change_reference_def)
next
  assume st: "ref_yx inps = None \<and> stored ''REF_Y'' = Some sy \<and> stored ''REF_X'' = Some sx
            \<and> py_int (Str sy) = Inr y \<and> py_int (Str sx) = Inr x"
  have "stack_reference (change_reference (\<lambda>key. map_option Str (stored key)) (ref_yx inps)) dname raw
      = Inr data"
    using assms st by (simp add: stack_reference_def change_reference_def getitem_def io_simps)
  from stack_run [OF assms(1-8) this, of evs] sub_ref_zero [OF assms(9)] st
  show "\<exists>atr out. read_data env inps evs
                = (Inr (data, atr, out),
                   evs @ [ReadAttribute (infile inps), ReadData (infile inps) (Some token)])
              \<and> atr ''REF_Y'' = Some (Str sy) \<and> atr ''REF_X'' = Some (Str sx)
              \<and> getitem2 data y x = Inr 0"
    by (auto simp: set_dates_def change_reference_def)
qed

theorem C2_stack_reference_witness:
  "raster_of (read_data
      (memory_ext [(''FILE_TYPE'', ''ifgramStack''), (''WAVELENGTH'', ''0.0562''),
                   (''REF_Y'', ''0''), (''REF_X'', ''0'')]
         [(Some ''unwrapPhase-20091225_20100723'', [[1, 2]])] [])
      \<lparr>infile = ''ifgramStack.h5'', dset = Some ''unwrapPhase-20091225_20100723'',
        outfile = None, ref_yx = Some (0, 1)\<rparr> [])
     = Inr [[- 1, 0]]
   \<and> getitem2 [[- 1, 0]] 0 1 = Inr 0
   \<and> raster_of (read_data
      (memory_ext [(''FILE_TYPE'', ''ifgramStack''), (''WAVELENGTH'', ''0.0562''),
                   (''REF_Y'', ''0''), (''REF_X'', ''0'')]
         [(Some ''unwrapPhase-20091225_20100723'', [[1, 2]])] [])
      \<lparr>infile = ''ifgramStack.h5'', dset = Some ''unwrapPhase-20091225_20100723'',
        outfile = None, ref_yx = None\<rparr> [])
     = Inr [[0, 1]]
   \<and> getitem2 [[0, 1]] 0 0 = Inr 0"
proof -
  have r2p: "range2phase_of (\<lambda>key. map_option Str
        (map_of [(''FILE_TYPE'', ''ifgramStack''), (''WAVELENGTH'', ''0.0562''),
                 (''REF_Y'', ''0''), (''REF_X'', ''0'')] key)) = Inr (- 4 * pi / (562 / 10000))"
    by (simp add: range2phase_of_def getitem_def eval_text io_simps)
  have s1: "sub_ref [[1, 2]] 0 1 = Inr [[- 1, 0]]" and s0: "sub_ref [[1, 2]] 0 0 = Inr [[0, 1]]"
    by (simp_all add: eval_raster io_simps)
  have p: "py_int (Str ''0'') = Inr 0"
    by (simp add: eval_text)
  have tok: "split CHR ''-'' ''unwrapPhase-20091225_20100723'' = [''unwrapPhase'', ''20091225_20100723'']"
    and dates: "split CHR ''_'' ''20091225_20100723'' = [''20091225'', ''20100723'']"
    and un: "startswith ''unwrapPhase'' ''unwrapPhase''"
    by (simp_all add: startswith_def)
  have a: "readfile_read_attribute (memory_ext [(''FILE_TYPE'', ''ifgramStack''), (''WAVELENGTH'', ''0.0562''),
                   (''REF_Y'', ''0''), (''REF_X'', ''0'')]
         [(Some ''unwrapPhase-20091225_20100723'', [[1, 2]])] []) f
      = Inr (map_of [(''FILE_TYPE'', ''ifgramStack''), (''WAVELENGTH'', ''0.0562''),
                   (''REF_Y'', ''0''), (''REF_X'', ''0'')])" for f
    by (simp add: memory_ext_def)
  have rd: "readfile_read (memory_ext [(''FILE_TYPE'', ''ifgramStack''), (''WAVELENGTH'', ''0.0562''),
                   (''REF_Y'', ''0''), (''REF_X'', ''0'')]
         [(Some ''unwrapPhase-20091225_20100723'', [[1, 2]])] []) f
        (Some ''unwrapPhase-20091225_20100723'') = Inr [[1, 2]]" for f
    by (simp add: memory_ext_def)
  have ft: "map_of [(''FILE_TYPE'', ''ifgramStack''), (''WAVELENGTH'', ''0.0562''),
                   (''REF_Y'', ''0''), (''REF_X'', ''0'')] ''FILE_TYPE'' = Some ''ifgramStack''"
    by simp
  show ?thesis
    using
      C2_stack_reference [OF a ft r2p _ tok dates rd un s1,
        of "\<lparr>infile = ''ifgramStack.h5'', dset = Some ''unwrapPhase-20091225_20100723'',
        outfile = None, ref_yx = Some (0, 1)\<rparr>" "[]" "''0''" "''0''"]
      C2_stack_reference [OF a ft r2p _ tok dates rd un s0,
        of "\<lparr>infile = ''ifgramStack.h5'', dset = Some ''unwrapPhase-20091225_20100723'',
        outfile = None, ref_yx = None\<rparr>" "[]" "''0''" "''0''"]
      p
    by (auto simp: raster_of_def)
qed

subsection \<open>Other file types\<close>

lemma coherence_is_generic:
  assumes "contains (lower k) ''coherence''"
  shows "k \<noteq> ''velocity'' \<and> k \<noteq> ''timeseries'' \<and> k \<noteq> ''HDFEOS'' \<and> k \<noteq> ''ifgramStack''"
proof -
  have "\<not> contains (lower ''velocity'') ''coherence''"
       "\<not> contains (lower ''timeseries'') ''coherence''"
       "\<not> contains (lower ''HDFEOS'') ''coherence''"
       "\<not> contains (lower ''ifgramStack'') ''coherence''"
    by (simp_all add: lower_def to_lower_def upper_chars_def lower_chars_def startswith_def)
  with assms show ?thesis by auto
qed

text \<open>
  C9: in the last branch, for a file type containing \<^verbatim>\<open>coherence\<close> (in any case),
  the type \<^verbatim>\<open>mask\<close>, or the type \<^verbatim>\<open>geometry\<close> with the token \<^verbatim>\<open>height\<close> and a
  stored \<^verbatim>\<open>Y_FIRST\<close>, the slice named by the token is read first and then the file
  is read again without a dataset name; the raster returned is the second one.
\<close>

theorem C9_generic_reread:
  assumes "readfile_read_attribute env (infile inps) = Inr stored"
    and "stored ''FILE_TYPE'' = Some k"
    and "range2phase_of (\<lambda>key. map_option Str (stored key)) = Inr r2p"
    and kind: "contains (lower k) ''coherence'' \<or> k = ''mask''
         \<or> (k = ''geometry'' \<and> dset inps = Some ''height'' \<and> stored ''Y_FIRST'' = Some y_first)"
    and "readfile_read env (infile inps) (dset inps) = Inr slice"
    and "readfile_read env (infile inps) None = Inr again"
  shows "\<exists>atr out. read_data env inps evs
           = (Inr (again, atr, out),
              evs @ [ReadAttribute (infile inps), ReadData (infile inps) (dset inps),
                     ReadData (infile inps) None])"
proof -
  have generic: "k \<noteq> ''velocity'' \<and> k \<noteq> ''timeseries'' \<and> k \<noteq> ''HDFEOS'' \<and> k \<noteq> ''ifgramStack''"
    using kind coherence_is_generic by auto
  have not_coh: "\<not> contains (lower ''mask'') ''coherence''" "\<not> contains (lower ''geometry'') ''coherence''"
    by (simp_all add: lower_def to_lower_def upper_chars_def lower_chars_def startswith_def)
  from kind show ?thesis
  proof (elim disjE)
    assume "contains (lower k) ''coherence''"
    with assms generic show ?thesis
      by (simp add: read_data_def Let_def dispatch_def read_generic_def generic_kind_def
          read_slice_def getitem_def change_reference_other with_file_type_def
          default_outfile_Inr io_simps)
  next
    assume "k = ''mask''"
    with assms generic not_coh show ?thesis
      by (simp add: read_data_def Let_def dispatch_def read_generic_def generic_kind_def
          read_slice_def getitem_def change_reference_other with_file_type_def
          default_outfile_Inr io_simps)
  next
    assume "k = ''geometry'' \<and> dset inps = Some ''height'' \<and> stored ''Y_FIRST'' = Some y_first"
    with assms generic not_coh show ?thesis
      by (simp add: read_data_def Let_def dispatch_def read_generic_def generic_kind_def
          read_slice_def getitem_def change_reference_other with_file_type_def
          default_outfile_Inr io_simps)
  qed
qed

theorem C9_generic_reread_witness:
  "raster_of (read_data
      (memory_ext [(''FILE_TYPE'', ''mask''), (''WAVELENGTH'', ''0.0562'')]
         [(Some ''water'', [[5]]), (None, [[1]])] [])
      \<lparr>infile = ''maskTempCoh.h5'', dset = Some ''water'', outfile = None, ref_yx = None\<rparr> [])
     = Inr [[1]]"
proof -
  have r2p: "range2phase_of (\<lambda>key. map_option Str
        (map_of [(''FILE_TYPE'', ''mask''), (''WAVELENGTH'', ''0.0562'')] key))
      = Inr (- 4 * pi / (562 / 10000))"
    by (simp add: range2phase_of_def getitem_def eval_text io_simps)
  show ?thesis
    using C9_generic_reread [of
        "memory_ext [(''FILE_TYPE'', ''mask''), (''WAVELENGTH'', ''0.0562'')]
           [(Some ''water'', [[5]]), (None, [[1]])] []"
        "\<lparr>infile = ''maskTempCoh.h5'', dset = Some ''water'', outfile = None, ref_yx = None\<rparr>"
        "map_of [(''FILE_TYPE'', ''mask''), (''WAVELENGTH'', ''0.0562'')]"
        "''mask''" _ "[]" "[[5]]" "[[1]]" "[]", OF _ _ r2p]
    by (auto simp: raster_of_def memory_ext_def)
qed

subsection \<open>What the reference override changes\<close>

lemma split_head_prefix: "split sep s = w # ws \<Longrightarrow> take (length w) s = w"
proof (induction s arbitrary: w ws)
  case Nil
  then show ?case by simp
next
  case (Cons c s)
  then show ?case by (auto split: if_splits list.splits)
qed

lemma startswith_contains: "startswith s p \<Longrightarrow> contains s p"
  by (cases s) (auto simp: startswith_def)

lemma startswith_trans: "startswith s w \<Longrightarrow> startswith w p \<Longrightarrow> startswith s p"
  unfolding startswith_def
  by (metis append_eq_conv_conj append_take_drop_id append.assoc)

lemma upd_ref_commute:
  "key \<noteq> ''REF_Y'' \<Longrightarrow> key \<noteq> ''REF_X'' \<Longrightarrow>
   (atr(''REF_Y'' \<mapsto> a, ''REF_X'' \<mapsto> b))(key \<mapsto> v) = (atr(key \<mapsto> v))(''REF_Y'' \<mapsto> a, ''REF_X'' \<mapsto> b)"
  by (rule ext) simp

lemma set_dates_ref:
  "set_dates (atr(''REF_Y'' \<mapsto> a, ''REF_X'' \<mapsto> b)) d1 d2
     = (set_dates atr d1 d2)(''REF_Y'' \<mapsto> a, ''REF_X'' \<mapsto> b)"
  by (simp add: set_dates_def upd_ref_commute)

lemma with_file_type_ref:
  "with_file_type stem (atr(''REF_Y'' \<mapsto> a, ''REF_X'' \<mapsto> b)) = with_file_type stem atr"
  by (simp add: with_file_type_def getitem_def)

lemma HDFEOS_metadata_ref:
  "HDFEOS_metadata (atr(''REF_Y'' \<mapsto> a, ''REF_X'' \<mapsto> b)) token dname d1 d2
     = bindE (HDFEOS_metadata atr token dname d1 d2)
         (\<lambda>m. Inr (m(''REF_Y'' \<mapsto> a, ''REF_X'' \<mapsto> b)))"
  by (simp add: HDFEOS_metadata_def Let_def set_dates_ref upd_ref_commute io_simps)

lemma stack_metadata_ref:
  "stack_metadata (atr(''REF_Y'' \<mapsto> a, ''REF_X'' \<mapsto> b)) token dname d1 d2
     = bindE (stack_metadata atr token dname d1 d2)
         (\<lambda>m. Inr (m(''REF_Y'' \<mapsto> a, ''REF_X'' \<mapsto> b)))"
  by (simp add: stack_metadata_def Let_def set_dates_ref upd_ref_commute io_simps)

lemma io_bind_pure:
  "io_bind (\<lambda>evs. (Inr v, evs)) f = f v"
  "io_bind (\<lambda>evs. (Inl e, evs)) f = (\<lambda>evs. (Inl e, evs))"
  by (rule ext, simp add: io_bind_def)+

lemma with_reference_bind:
  "with_reference y x (io_bind m f evs) = io_bind m (\<lambda>v evs'. with_reference y x (f v evs')) evs"
  by (simp add: io_bind_def with_reference_def split: prod.splits sum.splits)

lemma with_reference_pair:
  "with_reference y x (Inr (data, atr, out), evs)
     = (Inr (data, atr(''REF_Y'' \<mapsto> IntV y, ''REF_X'' \<mapsto> IntV x), out), evs)"
  "with_reference y x (Inl e, evs) = (Inl e, evs)"
  by (simp_all add: with_reference_def)

lemmas frame_simps = io_return_def io_raise_def io_lift_def io_bind_pure io_bind_assoc
  with_reference_bind with_reference_pair upd_ref_commute with_file_type_ref

lemma read_generic_ref:
  "read_generic env (inps\<lparr>ref_yx := Some (y, x)\<rparr>) (atr(''REF_Y'' \<mapsto> IntV y, ''REF_X'' \<mapsto> IntV x)) k evs
     = with_reference y x (read_generic env (inps\<lparr>ref_yx := None\<rparr>) atr k evs)"
proof (cases k)
  case (IntV n)
  then show ?thesis
    by (simp add: read_generic_def read_slice_def frame_simps)
next
  case (Str kind)
  show ?thesis
  proof (cases "contains (lower kind) ''coherence''")
    case True
    with Str show ?thesis
      by (simp add: read_generic_def generic_kind_def read_slice_def frame_simps)
  next
    case False
    note nocoh = this
    show ?thesis
    proof (cases "kind = ''mask''")
      case True
      with Str nocoh show ?thesis
        by (simp add: read_generic_def generic_kind_def read_slice_def frame_simps)
    next
      case False
      note nomask = this
      show ?thesis
      proof (cases "kind = ''geometry''")
        case True
        note geo = this
        show ?thesis
        proof (cases "dset inps = Some ''height''")
          case True
          with Str nocoh nomask geo show ?thesis
            by (cases "atr ''Y_FIRST''")
               (simp_all add: read_generic_def generic_kind_def read_slice_def frame_simps)
        next
          case False
          with Str nocoh nomask geo show ?thesis
            by (simp add: read_generic_def generic_kind_def read_slice_def frame_simps)
        qed
      next
        case False
        with Str nocoh nomask show ?thesis
          by (simp add: read_generic_def generic_kind_def read_slice_def frame_simps)
      qed
    qed
  qed
qed

lemma io_bind_lift_bindE:
  "io_bind (\<lambda>evs. (bindE r f, evs)) k = io_bind (\<lambda>evs. (r, evs)) (\<lambda>v. io_bind (\<lambda>evs. (f v, evs)) k)"
  by (rule ext) (simp add: io_bind_def bindE_def split: sum.splits)

lemma unpack2_Inr: "unpack2 xs = Inr (a, b) \<Longrightarrow> xs = [a, b]"
  by (cases xs rule: unpack2.cases) auto

lemma read_HDFEOS_ref:
  assumes "\<And>token. dset inps = Some token \<Longrightarrow> \<not> contains token ''displacement''"
  shows "read_HDFEOS env (inps\<lparr>ref_yx := Some (y, x)\<rparr>) (atr(''REF_Y'' \<mapsto> IntV y, ''REF_X'' \<mapsto> IntV x)) r2p evs
     = with_reference y x (read_HDFEOS env (inps\<lparr>ref_yx := None\<rparr>) atr r2p evs)"
proof (cases "dset inps")
  case None
  then show ?thesis by (simp add: read_HDFEOS_def frame_simps)
next
  case (Some token)
  note tok = this
  have nodisp: "\<not> contains token ''displacement''" using assms tok by simp
  show ?thesis
  proof (cases "split CHR ''-'' token")
    case Nil
    with tok show ?thesis by (simp add: read_HDFEOS_def frame_simps)
  next
    case (Cons dname rest)
    have "startswith token dname"
      using split_head_prefix [OF Cons] by (simp add: startswith_def)
    with nodisp have dn: "dname \<noteq> ''displacement''"
      using startswith_contains by auto
    show ?thesis
      using tok Cons dn nodisp
      by (simp add: read_HDFEOS_def HDFEOS_dates_def HDFEOS_raster_def HDFEOS_metadata_ref
          io_bind_lift_bindE split_def frame_simps)
  qed
qed

lemma read_ifgramStack_ref:
  assumes "\<And>token. dset inps = Some token \<Longrightarrow> \<not> startswith token ''unwrapPhase''"
  shows "read_ifgramStack env (inps\<lparr>ref_yx := Some (y, x)\<rparr>) (atr(''REF_Y'' \<mapsto> IntV y, ''REF_X'' \<mapsto> IntV x)) evs
     = with_reference y x (read_ifgramStack env (inps\<lparr>ref_yx := None\<rparr>) atr evs)"
proof (cases "dset inps")
  case None
  then show ?thesis by (simp add: read_ifgramStack_def frame_simps)
next
  case (Some token)
  note tok = this
  have noun: "\<not> startswith token ''unwrapPhase''" using assms tok by simp
  show ?thesis
  proof (cases "unpack2 (split CHR ''-'' token)")
    case (Inl e)
    with tok show ?thesis by (simp add: read_ifgramStack_def frame_simps)
  next
    case (Inr p)
    obtain dname date12 where p: "p = (dname, date12)" by (cases p)
    have "split CHR ''-'' token = [dname, date12]"
      using Inr p unpack2_Inr by simp
    then have "startswith token dname"
      using split_head_prefix by (simp add: startswith_def)
    with noun have dn: "\<not> startswith dname ''unwrapPhase''"
      using startswith_trans by blast
    show ?thesis
      using tok Inr p dn
      by (simp add: read_ifgramStack_def stack_reference_def stack_metadata_ref
          io_bind_lift_bindE split_def frame_simps)
  qed
qed

lemma dispatch_ref:
  assumes "k \<noteq> ''velocity''" and "k \<noteq> ''timeseries''"
    and "case dset inps of
           None \<Rightarrow> True
         | Some token \<Rightarrow> (k = ''HDFEOS'' \<longrightarrow> \<not> contains token ''displacement'')
                        \<and> (k = ''ifgramStack'' \<longrightarrow> \<not> startswith token ''unwrapPhase'')"
  shows "dispatch env (inps\<lparr>ref_yx := Some (y, x)\<rparr>) (atr(''REF_Y'' \<mapsto> IntV y, ''REF_X'' \<mapsto> IntV x)) r2p (Str k) evs
     = with_reference y x (dispatch env (inps\<lparr>ref_yx := None\<rparr>) atr r2p (Str k) evs)"
proof (cases "k = ''HDFEOS''")
  case True
  with assms have "\<And>token. dset inps = Some token \<Longrightarrow> \<not> contains token ''displacement''"
    by simp
  from read_HDFEOS_ref [OF this] True show ?thesis
    by (simp add: dispatch_def)
next
  case False
  note nohe5 = this
  show ?thesis
  proof (cases "k = ''ifgramStack''")
    case True
    with assms have "\<And>token. dset inps = Some token \<Longrightarrow> \<not> startswith token ''unwrapPhase''"
      by simp
    from read_ifgramStack_ref [OF this] True show ?thesis
      by (simp add: dispatch_def)
  next
    case False
    with assms nohe5 show ?thesis
      by (simp add: dispatch_def read_generic_ref)
  qed
qed

lemma with_reference_processor:
  assumes "b evs = with_reference y x (b0 evs)"
  shows "io_bind b (\<lambda>(data, atr, out). io_return (data, atr(''PROCESSOR'' \<mapsto> Str ''roipac''), out)) evs
     = with_reference y x
         (io_bind b0 (\<lambda>(data, atr, out). io_return (data, atr(''PROCESSOR'' \<mapsto> Str ''roipac''), out)) evs)"
proof (cases "b0 evs")
  case (Pair r evs')
  show ?thesis
  proof (cases r)
    case (Inl e)
    with Pair assms show ?thesis
      by (simp add: io_bind_def with_reference_def)
  next
    case (Inr v)
    obtain data atr out where "v = (data, atr, out)" by (cases v)
    with Inr Pair assms show ?thesis
      by (simp add: io_bind_def with_reference_def io_return_def upd_ref_commute)
  qed
qed

lemma raster_of_with_reference: "raster_of (with_reference y x r) = raster_of r"
  by (simp add: raster_of_def with_reference_def split: prod.splits sum.splits)

text \<open>
  C10, as stated, fails: on an interferogram stack an \<^verbatim>\<open>unwrapPhase\<close> raster changes
  with the caller's reference pixel. Without the override (and without a stored
  reference) \<open>[[1, 2]]\<close> is returned as it is; with the pixel (0, 1) it comes back as
  \<open>[[-1, 0]]\<close>.
\<close>

theorem C10_counterexample:
  "raster_of (read_data
      (memory_ext [(''FILE_TYPE'', ''ifgramStack''), (''WAVELENGTH'', ''0.0562'')]
         [(Some ''unwrapPhase-20091225_20100723'', [[1, 2]])] [])
      \<lparr>infile = ''ifgramStack.h5'', dset = Some ''unwrapPhase-20091225_20100723'',
        outfile = None, ref_yx = None\<rparr> [])
     = Inr [[1, 2]]
   \<and> raster_of (read_data
      (memory_ext [(''FILE_TYPE'', ''ifgramStack''), (''WAVELENGTH'', ''0.0562'')]
         [(Some ''unwrapPhase-20091225_20100723'', [[1, 2]])] [])
      \<lparr>infile = ''ifgramStack.h5'', dset = Some ''unwrapPhase-20091225_20100723'',
        outfile = None, ref_yx = Some (0, 1)\<rparr> [])
     = Inr [[- 1, 0]]"
  by (simp add: eval_read eval_text eval_raster io_simps)

text \<open>
  C10, amended: outside the branches \<^verbatim>\<open>velocity\<close>, \<^verbatim>\<open>timeseries\<close>, \<^verbatim>\<open>HDFEOS\<close>
  with a token containing \<^verbatim>\<open>displacement\<close>, and \<^verbatim>\<open>ifgramStack\<close> with a token
  starting with \<^verbatim>\<open>unwrapPhase\<close>, a run with a caller-supplied reference pixel is the
  run without it with \<^verbatim>\<open>REF_Y\<close> and \<^verbatim>\<open>REF_X\<close> set in the returned attributes: same
  raster, same output name, same exception if any, same file accesses.
\<close>

theorem C10_override_frame:
  assumes "readfile_read_attribute env (infile inps) = Inr stored"
    and "stored ''FILE_TYPE'' = Some k"
    and "k \<noteq> ''velocity''" and "k \<noteq> ''timeseries''"
    and "case dset inps of
           None \<Rightarrow> True
         | Some token \<Rightarrow> (k = ''HDFEOS'' \<longrightarrow> \<not> contains token ''displacement'')
                        \<and> (k = ''ifgramStack'' \<longrightarrow> \<not> startswith token ''unwrapPhase'')"
  shows "read_data env (inps\<lparr>ref_yx := Some (y, x)\<rparr>) evs
           = with_reference y x (read_data env (inps\<lparr>ref_yx := None\<rparr>) evs)"
proof (cases "range2phase_of (\<lambda>key. map_option Str (stored key))")
  case (Inl e)
  with assms(1) show ?thesis
    by (simp add: read_data_def Let_def with_reference_def io_simps)
next
  case (Inr r2p)
  have step: "io_bind
         (dispatch env (inps\<lparr>ref_yx := Some (y, x)\<rparr>)
           ((\<lambda>key. map_option Str (stored key))
            (''REF_Y'' \<mapsto> IntV y, ''REF_X'' \<mapsto> IntV x)) r2p (Str k))
         (\<lambda>(data, atr, out). io_return (data, atr(''PROCESSOR'' \<mapsto> Str ''roipac''), out)) evs1
      = with_reference y x
         (io_bind
           (dispatch env (inps\<lparr>ref_yx := None\<rparr>) (\<lambda>key. map_option Str (stored key)) r2p (Str k))
           (\<lambda>(data, atr, out). io_return (data, atr(''PROCESSOR'' \<mapsto> Str ''roipac''), out)) evs1)"
    for evs1
    by (rule with_reference_processor) (rule dispatch_ref [OF assms(3-5)])
  from assms(1,2) Inr show ?thesis
    by (simp add: read_data_def Let_def change_reference_def getitem_def io_simps step)
qed

theorem C10_override_frame_witness:
  "read_data
      (memory_ext [(''FILE_TYPE'', ''ifgramStack''), (''WAVELENGTH'', ''0.0562'')]
         [(Some ''coherence-20091225_20100723'', [[3, 4]])] [])
      \<lparr>infile = ''ifgramStack.h5'', dset = Some ''coherence-20091225_20100723'',
        outfile = None, ref_yx = Some (0, 1)\<rparr> []
     = with_reference 0 1 (read_data
      (memory_ext [(''FILE_TYPE'', ''ifgramStack''), (''WAVELENGTH'', ''0.0562'')]
         [(Some ''coherence-20091225_20100723'', [[3, 4]])] [])
      \<lparr>infile = ''ifgramStack.h5'', dset = Some ''coherence-20091225_20100723'',
        outfile = None, ref_yx = None\<rparr> [])
   \<and> raster_of (read_data
      (memory_ext [(''FILE_TYPE'', ''ifgramStack''), (''WAVELENGTH'', ''0.0562'')]
         [(Some ''coherence-20091225_20100723'', [[3, 4]])] [])
      \<lparr>infile = ''ifgramStack.h5'', dset = Some ''coherence-20091225_20100723'',
        outfile = None, ref_yx = Some (0, 1)\<rparr> [])
     = Inr [[3, 4]]"
proof -
  have base: "raster_of (read_data
      (memory_ext [(''FILE_TYPE'', ''ifgramStack''), (''WAVELENGTH'', ''0.0562'')]
         [(Some ''coherence-20091225_20100723'', [[3, 4]])] [])
      \<lparr>infile = ''ifgramStack.h5'', dset = Some ''coherence-20091225_20100723'',
        outfile = None, ref_yx = None\<rparr> [])
     = Inr [[3, 4]]"
    by (simp add: eval_read eval_text eval_raster io_simps)
  have frame: "read_data
      (memory_ext [(''FILE_TYPE'', ''ifgramStack''), (''WAVELENGTH'', ''0.0562'')]
         [(Some ''coherence-20091225_20100723'', [[3, 4]])] [])
      \<lparr>infile = ''ifgramStack.h5'', dset = Some ''coherence-20091225_20100723'',
        outfile = None, ref_yx = Some (0, 1)\<rparr> []
     = with_reference 0 1 (read_data
      (memory_ext [(''FILE_TYPE'', ''ifgramStack''), (''WAVELENGTH'', ''0.0562'')]
         [(Some ''coherence-20091225_20100723'', [[3, 4]])] [])
      \<lparr>infile = ''ifgramStack.h5'', dset = Some ''coherence-20091225_20100723'',
        outfile = None, ref_yx = None\<rparr> [])"
    using C10_override_frame [of
        "memory_ext [(''FILE_TYPE'', ''ifgramStack''), (''WAVELENGTH'', ''0.0562'')]
           [(Some ''coherence-20091225_20100723'', [[3, 4]])] []"
        "\<lparr>infile = ''ifgramStack.h5'', dset = Some ''coherence-20091225_20100723'',
          outfile = None, ref_yx = None\<rparr>"
        "map_of [(''FILE_TYPE'', ''ifgramStack''), (''WAVELENGTH'', ''0.0562'')]"
        "''ifgramStack''" 0 1 "[]"]
    by (simp add: memory_ext_def startswith_def)
  from frame base show ?thesis
    by (simp add: raster_of_with_reference)
qed

subsection \<open>Epoch differencing\<close>

lemma broadcast_index: "i < m \<Longrightarrow> (if m = 1 then 0 else i) = (i::nat)"
  by simp

lemma isub_shapes:
  assumes "isub ra rb = Inr d1" and "isub rb ra = Inr d2"
  shows "nrows rb = nrows ra \<and> ncols rb = ncols ra"
proof -
  from assms(1) have a: "(nrows rb = nrows ra \<or> nrows rb = 1) \<and> (ncols rb = ncols ra \<or> ncols rb = 1)"
    unfolding isub_def Let_def by (metis Inl_Inr_False)
  from assms(2) have b: "(nrows ra = nrows rb \<or> nrows ra = 1) \<and> (ncols ra = ncols rb \<or> ncols ra = 1)"
    unfolding isub_def Let_def by (metis Inl_Inr_False)
  from a b show ?thesis by auto
qed

lemma isub_same_shape:
  assumes "nrows other = nrows data" and "ncols other = ncols data"
  shows "isub data other
     = Inr (map (\<lambda>i. map (\<lambda>j. data ! i ! j - other ! i ! j) [0..<ncols data]) [0..<nrows data])"
proof -
  have cell: "data ! i ! j
                  - other ! (if nrows data = 1 then 0 else i) ! (if ncols data = 1 then 0 else j)
      = data ! i ! j - other ! i ! j" if "i < nrows data" and "j < ncols data" for i j
    using that by (simp only: broadcast_index)
  have "map (\<lambda>i. map (\<lambda>j. data ! i ! j
                  - other ! (if nrows data = 1 then 0 else i) ! (if ncols data = 1 then 0 else j))
                [0..<ncols data]) [0..<nrows data]
      = map (\<lambda>i. map (\<lambda>j. data ! i ! j - other ! i ! j) [0..<ncols data]) [0..<nrows data]"
  proof (rule map_cong [OF refl])
    fix i assume "i \<in> set [0..<nrows data]"
    then have i: "i < nrows data" by simp
    show "map (\<lambda>j. data ! i ! j
                  - other ! (if nrows data = 1 then 0 else i) ! (if ncols data = 1 then 0 else j))
                [0..<ncols data]
        = map (\<lambda>j. data ! i ! j - other ! i ! j) [0..<ncols data]"
    proof (rule map_cong [OF refl])
      fix j assume "j \<in> set [0..<ncols data]"
      then have "j < ncols data" by simp
      with i show "data ! i ! j
                  - other ! (if nrows data = 1 then 0 else i) ! (if ncols data = 1 then 0 else j)
          = data ! i ! j - other ! i ! j"
        by (rule cell)
    qed
  qed
  then show ?thesis
    unfolding isub_def Let_def using assms by (simp only: simp_thms if_True)
qed

lemma scale_neg_cells:
  "scale (map (\<lambda>i. map (\<lambda>j. f i j - g i j) cs) rs) k
     = neg (scale (map (\<lambda>i. map (\<lambda>j. g i j - f i j) cs) rs) k)"
  by (simp add: scale_def neg_def comp_def left_diff_distrib)

lemma isub_antisym:
  assumes "isub ra rb = Inr d1" and "isub rb ra = Inr d2"
  shows "scale d1 k = neg (scale d2 k)"
proof -
  from isub_shapes [OF assms] have sh: "nrows rb = nrows ra" "ncols rb = ncols ra" by simp_all
  from assms(1) isub_same_shape [OF sh] have d1:
    "d1 = map (\<lambda>i. map (\<lambda>j. ra ! i ! j - rb ! i ! j) [0..<ncols ra]) [0..<nrows ra]" by simp
  from assms(2) isub_same_shape [of ra rb] sh have d2:
    "d2 = map (\<lambda>i. map (\<lambda>j. rb ! i ! j - ra ! i ! j) [0..<ncols ra]) [0..<nrows ra]" by simp
  show ?thesis
    unfolding d1 d2 by (rule scale_neg_cells)
qed

lemma io_bind_InrE:
  assumes "io_bind m f evs = (Inr v, evs')"
  obtains u evs1 where "m evs = (Inr u, evs1)" and "f u evs1 = (Inr v, evs')"
  using assms by (auto simp: io_bind_def split: prod.splits sum.splits)

lemma io_leaf_Inr:
  "io_return u evs = (Inr v, evs') \<longleftrightarrow> u = v \<and> evs' = evs"
  "io_raise e evs = (Inr v, evs') \<longleftrightarrow> False"
  "io_lift r evs = (Inr v, evs') \<longleftrightarrow> r = Inr v \<and> evs' = evs"
  "io_call ev r evs = (Inr v, evs') \<longleftrightarrow> r = Inr v \<and> evs' = evs @ [ev]"
  by (auto simp: io_return_def io_raise_def io_lift_def io_call_def)

lemma split_two:
  "sep \<notin> set a \<Longrightarrow> sep \<notin> set b \<Longrightarrow> split sep (a @ sep # b) = [a, b]"
proof (induction a)
  case Nil
  have "split sep b = [b]" using Nil(2) by (induction b) auto
  then show ?case by simp
next
  case (Cons c a)
  then show ?case by auto
qed

lemma date_pair_two:
  assumes "date_pair env atr (a @ CHR ''_'' # b) = Inr (d1, d2)"
    and "CHR ''_'' \<notin> set a" and "CHR ''_'' \<notin> set b"
  shows "ptime_yyyymmdd env a = Inr d1 \<and> ptime_yyyymmdd env b = Inr d2"
  using assms
  by (auto simp: date_pair_def split_two bindE_def split: sum.splits)

lemma read_timeseries_raster:
  assumes run: "read_timeseries env inps atr k evs = (Inr (data, atr', out), evs')"
    and "ref_yx inps = None"
    and "dset inps = Some (a @ CHR ''_'' # b)"
    and "CHR ''_'' \<notin> set a" and "CHR ''_'' \<notin> set b"
  shows "\<exists>da db ra rb d.
           ptime_yyyymmdd env a = Inr da \<and> ptime_yyyymmdd env b = Inr db
         \<and> readfile_read env (infile inps) (Some da) = Inr ra
         \<and> readfile_read env (infile inps) (Some db) = Inr rb
         \<and> isub rb ra = Inr d \<and> data = scale d k"
  using assms
  apply (simp add: read_timeseries_def)
  apply (elim io_bind_InrE)
  apply (auto simp: io_leaf_Inr read_slice_def ref_subtract_def Let_def
      dest!: date_pair_two elim!: io_bind_InrE)
  done

lemma displacement_token:
  assumes "CHR ''-'' \<notin> set a" and "CHR ''-'' \<notin> set b"
  shows "split CHR ''-'' (''displacement-'' @ a @ CHR ''_'' # b) = [''displacement'', a @ CHR ''_'' # b]"
  using split_two [of "CHR ''-''" "''displacement''" "a @ CHR ''_'' # b"] assms by simp

lemma contains_displacement: "contains (''displacement-'' @ s) ''displacement''"
  by (simp add: startswith_def)

lemma read_HDFEOS_raster:
  assumes run: "read_HDFEOS env inps atr k evs = (Inr (data, atr', out), evs')"
    and "ref_yx inps = None"
    and "dset inps = Some (''displacement-'' @ a @ CHR ''_'' # b)"
    and "CHR ''_'' \<notin> set a" and "CHR ''_'' \<notin> set b"
    and "CHR ''-'' \<notin> set a" and "CHR ''-'' \<notin> set b"
  shows "\<exists>da db slices na nb ra rb d.
           ptime_yyyymmdd env a = Inr da \<and> ptime_yyyymmdd env b = Inr db
         \<and> readfile_get_slice_list env (infile inps) = Inr slices
         \<and> resolve_slice env slices (''displacement-'' @ da) = Inr na
         \<and> resolve_slice env slices (''displacement-'' @ db) = Inr nb
         \<and> readfile_read env (infile inps) (Some na) = Inr ra
         \<and> readfile_read env (infile inps) (Some nb) = Inr rb
         \<and> isub ra rb = Inr d \<and> data = scale d k"
  using assms
  apply (simp add: read_HDFEOS_def HDFEOS_dates_def HDFEOS_raster_def
      displacement_token contains_displacement io_simps del: append.simps)
  apply (elim io_bind_InrE)
  apply (auto simp: io_leaf_Inr read_slice_def ref_subtract_def Let_def
      dest!: date_pair_two elim!: io_bind_InrE)
  done

lemma raster_of_InrE:
  assumes "raster_of r = Inr data"
  obtains atr out evs' where "r = (Inr (data, atr, out), evs')"
  using assms by (cases r) (auto simp: raster_of_def split: sum.splits)

lemma read_data_InrE:
  assumes "read_data env inps evs = (Inr (data, atr, out), evs')"
    and "readfile_read_attribute env (infile inps) = Inr stored"
    and "stored ''FILE_TYPE'' = Some k"
  obtains r2p atr' where "range2phase_of (\<lambda>key. map_option Str (stored key)) = Inr r2p"
    and "dispatch env inps (change_reference (\<lambda>key. map_option Str (stored key)) (ref_yx inps))
           r2p (Str k) (evs @ [ReadAttribute (infile inps)]) = (Inr (data, atr', out), evs')"
    and "atr = atr'(''PROCESSOR'' \<mapsto> Str ''roipac'')"
  using assms
  apply (simp add: read_data_def Let_def io_simps)
  apply (cases "range2phase_of (\<lambda>key. map_option Str (stored key))")
   apply (simp add: io_simps)
  apply (simp add: io_simps getitem_def change_reference_other)
  apply (erule io_bind_InrE)
  apply (auto simp: io_leaf_Inr)
  done

text \<open>
  C1: the two differencing branches on the same pair of rasters, 1 at epoch 20170904
  and 3 at epoch 20170916, for the request from 20170904 to 20170916. The
  \<^verbatim>\<open>timeseries\<close> branch returns \<open>(3 - 1) * k\<close>, the raster of the second epoch minus
  that of the first; the \<^verbatim>\<open>HDFEOS\<close> displacement branch returns \<open>(1 - 3) * k\<close>, the
  first minus the second.
\<close>

theorem C1_difference_order:
  "raster_of (read_data
      (memory_ext [(''FILE_TYPE'', ''timeseries''), (''WAVELENGTH'', ''0.0562'')]
         [(Some ''20170904'', [[1]]), (Some ''20170916'', [[3]])] [''20170904'', ''20170916''])
      \<lparr>infile = ''timeseries.h5'', dset = Some ''20170904_20170916'',
        outfile = None, ref_yx = None\<rparr> [])
     = Inr [[(3 - 1) * (- 4 * pi / (562 / 10000))]]
   \<and> raster_of (read_data
      (memory_ext [(''FILE_TYPE'', ''HDFEOS''), (''WAVELENGTH'', ''0.0562'')]
         [(Some ''displacement-20170904'', [[1]]), (Some ''displacement-20170916'', [[3]])]
         [''20170904'', ''20170916''])
      \<lparr>infile = ''S1.he5'', dset = Some ''displacement-20170904_20170916'',
        outfile = None, ref_yx = None\<rparr> [])
     = Inr [[(1 - 3) * (- 4 * pi / (562 / 10000))]]"
  by (simp add: eval_read eval_text eval_raster isub_def List.map_filter_def upt_rec io_simps)

text \<open>
  C7: with no reference pixel, exchanging the two epochs of a \<^verbatim>\<open>timeseries\<close> request
  \<^verbatim>\<open>a_b\<close>, or of a multi-slice request \<^verbatim>\<open>displacement-a_b\<close>, negates the raster:
  whenever both runs return, one raster is the negation of the other.
\<close>

theorem C7_antisymmetric:
  assumes attrs: "readfile_read_attribute env (infile inps) = Inr stored"
    and kind: "stored ''FILE_TYPE'' = Some ''timeseries''
                 \<and> t12 = a @ ''_'' @ b \<and> t21 = b @ ''_'' @ a
             \<or> stored ''FILE_TYPE'' = Some ''HDFEOS''
                 \<and> t12 = ''displacement-'' @ a @ ''_'' @ b \<and> t21 = ''displacement-'' @ b @ ''_'' @ a
                 \<and> CHR ''-'' \<notin> set a \<and> CHR ''-'' \<notin> set b"
    and seps: "CHR ''_'' \<notin> set a" "CHR ''_'' \<notin> set b"
    and noref: "ref_yx inps = None"
    and run12: "raster_of (read_data env (inps\<lparr>dset := Some t12\<rparr>) evs) = Inr r12"
    and run21: "raster_of (read_data env (inps\<lparr>dset := Some t21\<rparr>) evs') = Inr r21"
  shows "r12 = neg r21"
proof -
  from run12 obtain atr12 out12 e12
    where full12: "read_data env (inps\<lparr>dset := Some t12\<rparr>) evs = (Inr (r12, atr12, out12), e12)"
    by (rule raster_of_InrE)
  from run21 obtain atr21 out21 e21
    where full21: "read_data env (inps\<lparr>dset := Some t21\<rparr>) evs' = (Inr (r21, atr21, out21), e21)"
    by (rule raster_of_InrE)
  from kind show ?thesis
  proof
    assume ts: "stored ''FILE_TYPE'' = Some ''timeseries''
                 \<and> t12 = a @ ''_'' @ b \<and> t21 = b @ ''_'' @ a"
    from full12 attrs ts obtain k1 a1
      where k1: "range2phase_of (\<lambda>key. map_option Str (stored key)) = Inr k1"
        and b1: "read_timeseries env (inps\<lparr>dset := Some t12\<rparr>)
                   (\<lambda>key. map_option Str (stored key)) k1 (evs @ [ReadAttribute (infile inps)])
                 = (Inr (r12, a1, out12), e12)"
      by (auto elim!: read_data_InrE simp: dispatch_def noref change_reference_def)
    from full21 attrs ts obtain k2 a2
      where k2: "range2phase_of (\<lambda>key. map_option Str (stored key)) = Inr k2"
        and b2: "read_timeseries env (inps\<lparr>dset := Some t21\<rparr>)
                   (\<lambda>key. map_option Str (stored key)) k2 (evs' @ [ReadAttribute (infile inps)])
                 = (Inr (r21, a2, out21), e21)"
      by (auto elim!: read_data_InrE simp: dispatch_def noref change_reference_def)
    from k1 k2 have same: "k2 = k1" by simp
    from read_timeseries_raster [OF b1, of a b] ts seps noref
    obtain da db ra rb d where 1: "ptime_yyyymmdd env a = Inr da" "ptime_yyyymmdd env b = Inr db"
        "readfile_read env (infile inps) (Some da) = Inr ra"
        "readfile_read env (infile inps) (Some db) = Inr rb"
        "isub rb ra = Inr d" "r12 = scale d k1"
      by auto
    from read_timeseries_raster [OF b2, of b a] ts seps noref 1(1-4) same
    obtain d' where 2: "isub ra rb = Inr d'" "r21 = scale d' k1"
      by auto
    from isub_antisym [OF 1(5) 2(1)] 1(6) 2(2) show ?thesis by simp
  next
    assume he: "stored ''FILE_TYPE'' = Some ''HDFEOS''
                 \<and> t12 = ''displacement-'' @ a @ ''_'' @ b \<and> t21 = ''displacement-'' @ b @ ''_'' @ a
                 \<and> CHR ''-'' \<notin> set a \<and> CHR ''-'' \<notin> set b"
    from full12 attrs he obtain k1 a1
      where k1: "range2phase_of (\<lambda>key. map_option Str (stored key)) = Inr k1"
        and b1: "read_HDFEOS env (inps\<lparr>dset := Some t12\<rparr>)
                   (\<lambda>key. map_option Str (stored key)) k1 (evs @ [ReadAttribute (infile inps)])
                 = (Inr (r12, a1, out12), e12)"
      by (auto elim!: read_data_InrE simp: dispatch_def noref change_reference_def)
    from full21 attrs he obtain k2 a2
      where k2: "range2phase_of (\<lambda>key. map_option Str (stored key)) = Inr k2"
        and b2: "read_HDFEOS env (inps\<lparr>dset := Some t21\<rparr>)
                   (\<lambda>key. map_option Str (stored key)) k2 (evs' @ [ReadAttribute (infile inps)])
                 = (Inr (r21, a2, out21), e21)"
      by (auto elim!: read_data_InrE simp: dispatch_def noref change_reference_def)
    from k1 k2 have same: "k2 = k1" by simp
    from read_HDFEOS_raster [OF b1, of a b] he seps noref
    obtain da db slices na nb ra rb d where 1:
        "ptime_yyyymmdd env a = Inr da" "ptime_yyyymmdd env b = Inr db"
        "readfile_get_slice_list env (infile inps) = Inr slices"
        "resolve_slice env slices (''displacement-'' @ da) = Inr na"
        "resolve_slice env slices (''displacement-'' @ db) = Inr nb"
        "readfile_read env (infile inps) (Some na) = Inr ra"
        "readfile_read env (infile inps) (Some nb) = Inr rb"
        "isub ra rb = Inr d" "r12 = scale d k1"
      by auto
    from read_HDFEOS_raster [OF b2, of b a] he seps noref 1(1-7) same
    obtain d' where 2: "isub rb ra = Inr d'" "r21 = scale d' k1"
      by auto
    from isub_antisym [OF 1(8) 2(1)] 1(9) 2(2) show ?thesis by simp
  qed
qed

theorem C7_antisymmetric_witness:
  "raster_of (read_data
      (memory_ext [(''FILE_TYPE'', ''timeseries''), (''WAVELENGTH'', ''0.0562'')]
         [(Some ''20170904'', [[1, 2]]), (Some ''20170916'', [[3, 5]])] [''20170904'', ''20170916''])
      \<lparr>infile = ''timeseries.h5'', dset = Some ''20170904_20170916'',
        outfile = None, ref_yx = None\<rparr> [])
     = Inr (scale [[2, 3]] (- 4 * pi / (562 / 10000)))
   \<and> raster_of (read_data
      (memory_ext [(''FILE_TYPE'', ''timeseries''), (''WAVELENGTH'', ''0.0562'')]
         [(Some ''20170904'', [[1, 2]]), (Some ''20170916'', [[3, 5]])] [''20170904'', ''20170916''])
      \<lparr>infile = ''timeseries.h5'', dset = Some ''20170916_20170904'',
        outfile = None, ref_yx = None\<rparr> [])
     = Inr (scale [[- 2, - 3]] (- 4 * pi / (562 / 10000)))
   \<and> scale [[2, 3]] (- 4 * pi / (562 / 10000)) = neg (scale [[- 2, - 3]] (- 4 * pi / (562 / 10000)))
   \<and> raster_of (read_data
      (memory_ext [(''FILE_TYPE'', ''HDFEOS''), (''WAVELENGTH'', ''0.0562'')]
         [(Some ''displacement-20170904'', [[1, 2]]), (Some ''displacement-20170916'', [[3, 5]])]
         [''20170904'', ''20170916''])
      \<lparr>infile = ''S1.he5'', dset = Some ''displacement-20170904_20170916'',
        outfile = None, ref_yx = None\<rparr> [])
     = Inr (scale [[- 2, - 3]] (- 4 * pi / (562 / 10000)))
   \<and> raster_of (read_data
      (memory_ext [(''FILE_TYPE'', ''HDFEOS''), (''WAVELENGTH'', ''0.0562'')]
         [(Some ''displacement-20170904'', [[1, 2]]), (Some ''displacement-20170916'', [[3, 5]])]
         [''20170904'', ''20170916''])
      \<lparr>infile = ''S1.he5'', dset = Some ''displacement-20170916_20170904'',
        outfile = None, ref_yx = None\<rparr> [])
     = Inr (scale [[2, 3]] (- 4 * pi / (562 / 10000)))
   \<and> scale [[- 2, - 3]] (- 4 * pi / (562 / 10000)) = neg (scale [[2, 3]] (- 4 * pi / (562 / 10000)))"
proof -
  have run12: "raster_of (read_data
      (memory_ext [(''FILE_TYPE'', ''timeseries''), (''WAVELENGTH'', ''0.0562'')]
         [(Some ''20170904'', [[1, 2]]), (Some ''20170916'', [[3, 5]])] [''20170904'', ''20170916''])
      (\<lparr>infile = ''timeseries.h5'', dset = None, outfile = None, ref_yx = None\<rparr>
         \<lparr>dset := Some ''20170904_20170916''\<rparr>) [])
     = Inr (scale [[2, 3]] (- 4 * pi / (562 / 10000)))"
    by (simp add: eval_read eval_text eval_raster isub_def upt_rec io_simps)
  have run21: "raster_of (read_data
      (memory_ext [(''FILE_TYPE'', ''timeseries''), (''WAVELENGTH'', ''0.0562'')]
         [(Some ''20170904'', [[1, 2]]), (Some ''20170916'', [[3, 5]])] [''20170904'', ''20170916''])
      (\<lparr>infile = ''timeseries.h5'', dset = None, outfile = None, ref_yx = None\<rparr>
         \<lparr>dset := Some ''20170916_20170904''\<rparr>) [])
     = Inr (scale [[- 2, - 3]] (- 4 * pi / (562 / 10000)))"
    by (simp add: eval_read eval_text eval_raster isub_def upt_rec io_simps)
  have he12: "raster_of (read_data
      (memory_ext [(''FILE_TYPE'', ''HDFEOS''), (''WAVELENGTH'', ''0.0562'')]
         [(Some ''displacement-20170904'', [[1, 2]]), (Some ''displacement-20170916'', [[3, 5]])]
         [''20170904'', ''20170916''])
      (\<lparr>infile = ''S1.he5'', dset = None, outfile = None, ref_yx = None\<rparr>
         \<lparr>dset := Some ''displacement-20170904_20170916''\<rparr>) [])
     = Inr (scale [[- 2, - 3]] (- 4 * pi / (562 / 10000)))"
    by (simp add: eval_read eval_text eval_raster isub_def List.map_filter_def upt_rec io_simps)
  have he21: "raster_of (read_data
      (memory_ext [(''FILE_TYPE'', ''HDFEOS''), (''WAVELENGTH'', ''0.0562'')]
         [(Some ''displacement-20170904'', [[1, 2]]), (Some ''displacement-20170916'', [[3, 5]])]
         [''20170904'', ''20170916''])
      (\<lparr>infile = ''S1.he5'', dset = None, outfile = None, ref_yx = None\<rparr>
         \<lparr>dset := Some ''displacement-20170916_20170904''\<rparr>) [])
     = Inr (scale [[2, 3]] (- 4 * pi / (562 / 10000)))"
    by (simp add: eval_read eval_text eval_raster isub_def List.map_filter_def upt_rec io_simps)
  have ts: "scale [[2, 3]] (- 4 * pi / (562 / 10000)) = neg (scale [[- 2, - 3]] (- 4 * pi / (562 / 10000)))"
    using C7_antisymmetric [where stored = "map_of [(''FILE_TYPE'', ''timeseries''), (''WAVELENGTH'', ''0.0562'')]"
        and a = "''20170904''" and b = "''20170916''", OF _ _ _ _ _ run12 run21]
    by (simp add: memory_ext_def)
  have he: "scale [[- 2, - 3]] (- 4 * pi / (562 / 10000)) = neg (scale [[2, 3]] (- 4 * pi / (562 / 10000)))"
    using C7_antisymmetric [where stored = "map_of [(''FILE_TYPE'', ''HDFEOS''), (''WAVELENGTH'', ''0.0562'')]"
        and a = "''20170904''" and b = "''20170916''", OF _ _ _ _ _ he12 he21]
    by (simp add: memory_ext_def)
  from run12 run21 he12 he21 ts he show ?thesis by simp
qed

subsection \<open>The date fields of a multi-slice container\<close>

lemma attribute_of_InrE:
  assumes "attribute_of r key = Inr v"
  obtains data atr out evs' where "r = (Inr (data, atr, out), evs')" and "v = atr key"
  using assms by (cases r) (auto simp: attribute_of_def split: sum.splits)

lemma HDFEOS_metadata_DATE12:
  "HDFEOS_metadata atr token dname d1 d2 = Inr m \<Longrightarrow>
   m ''DATE12'' = Some (Str (slice_2_8 d1 @ ''-'' @ slice_2_8 d2))"
  by (auto simp: HDFEOS_metadata_def set_dates_def Let_def split: if_splits)

lemma read_HDFEOS_DATE12:
  assumes run: "read_HDFEOS env inps atr k evs = (Inr (data, atr', out), evs')"
    and "dset inps = Some token"
    and "split CHR ''-'' token = dname # rest"
  shows "\<exists>d1 d2 evs1. HDFEOS_dates env inps atr token dname evs = (Inr (d1, d2), evs1)
           \<and> atr' ''DATE12'' = Some (Str (slice_2_8 d1 @ ''-'' @ slice_2_8 d2))"
  using assms
  apply (simp add: read_HDFEOS_def)
  apply (erule io_bind_InrE)
  apply (auto simp: io_leaf_Inr dest!: HDFEOS_metadata_DATE12 elim!: io_bind_InrE)
  done

lemma first_hd: "first xs = Inr x \<Longrightarrow> x = hd xs"
  by (cases xs) (simp_all add: first_def)

lemma final_Inr: "final xs = Inr x \<Longrightarrow> x = last xs"
  by (cases xs rule: rev_cases) (simp_all add: final_def)

text \<open>
  C4, as stated, fails for a name other than \<^verbatim>\<open>displacement\<close>: the request
  \<^verbatim>\<open>temporalCoherence-20170904_20170916\<close> on a container whose stored dates run from
  20141213 to 20180619 gets \<^verbatim>\<open>DATE12 = '141213-180619'\<close>, not \<^verbatim>\<open>'170904-170916'\<close>.
\<close>

theorem C4_counterexample:
  "attribute_of (read_data
      (memory_ext [(''FILE_TYPE'', ''HDFEOS''), (''WAVELENGTH'', ''0.0562'')]
         [(Some ''temporalCoherence-20170904_20170916'', [[1]])]
         [''20141213'', ''20180619''])
      \<lparr>infile = ''S1.he5'', dset = Some ''temporalCoherence-20170904_20170916'',
        outfile = None, ref_yx = None\<rparr> []) ''DATE12''
     = Inr (Some (Str ''141213-180619''))"
  by (simp add: eval_read eval_text eval_raster attribute_of_def slice_2_8_def
      List.map_filter_def io_simps)

text \<open>
  C4, amended: whenever a multi-slice request returns, \<^verbatim>\<open>DATE12\<close> is
  \<^verbatim>\<open>date1[2:8]\<close>, a dash, \<^verbatim>\<open>date2[2:8]\<close>, where for \<^verbatim>\<open>displacement-e1_e2\<close> the two
  dates are the normalised epochs of the request, and for every other name they are
  the first and the last stored date of the container.
\<close>

theorem C4_HDFEOS_DATE12:
  assumes attrs: "readfile_read_attribute env (infile inps) = Inr stored"
    and he5: "stored ''FILE_TYPE'' = Some ''HDFEOS''"
    and tok: "dset inps = Some token"
    and run: "attribute_of (read_data env inps evs) ''DATE12'' = Inr v"
  shows "(token = ''displacement-'' @ e1 @ ''_'' @ e2
            \<and> CHR ''-'' \<notin> set e1 \<and> CHR ''-'' \<notin> set e2 \<and> CHR ''_'' \<notin> set e1 \<and> CHR ''_'' \<notin> set e2
            \<and> ptime_yyyymmdd env e1 = Inr d1 \<and> ptime_yyyymmdd env e2 = Inr d2
          \<longrightarrow> v = Some (Str (slice_2_8 d1 @ ''-'' @ slice_2_8 d2)))
       \<and> (split CHR ''-'' token = dname # rest \<and> dname \<noteq> ''displacement''
            \<and> HDFEOS_get_date_list env (infile inps) = Inr dates
          \<longrightarrow> v = Some (Str (slice_2_8 (hd dates) @ ''-'' @ slice_2_8 (last dates))))"
proof -
  from run obtain data atr out evs'
    where full: "read_data env inps evs = (Inr (data, atr, out), evs')" and v: "v = atr ''DATE12''"
    by (rule attribute_of_InrE)
  from full attrs he5 obtain k atr'
    where branch: "read_HDFEOS env inps
             (change_reference (\<lambda>key. map_option Str (stored key)) (ref_yx inps)) k
             (evs @ [ReadAttribute (infile inps)]) = (Inr (data, atr', out), evs')"
      and atr: "atr = atr'(''PROCESSOR'' \<mapsto> Str ''roipac'')"
    by (auto elim!: read_data_InrE simp: dispatch_def)
  from atr v have v': "v = atr' ''DATE12''" by simp
  show ?thesis
  proof (intro conjI impI)
    assume disp: "token = ''displacement-'' @ e1 @ ''_'' @ e2
            \<and> CHR ''-'' \<notin> set e1 \<and> CHR ''-'' \<notin> set e2 \<and> CHR ''_'' \<notin> set e1 \<and> CHR ''_'' \<notin> set e2
            \<and> ptime_yyyymmdd env e1 = Inr d1 \<and> ptime_yyyymmdd env e2 = Inr d2"
    then have sp: "split CHR ''-'' token = [''displacement'', e1 @ CHR ''_'' # e2]"
      using displacement_token [of e1 e2] by simp
    from read_HDFEOS_DATE12 [OF branch tok sp] obtain x1 x2 evs1
      where dates: "HDFEOS_dates env inps
               (change_reference (\<lambda>key. map_option Str (stored key)) (ref_yx inps))
               token ''displacement'' (evs @ [ReadAttribute (infile inps)]) = (Inr (x1, x2), evs1)"
        and d12: "atr' ''DATE12'' = Some (Str (slice_2_8 x1 @ ''-'' @ slice_2_8 x2))"
      by auto
    from dates disp sp have "x1 = d1 \<and> x2 = d2"
      by (auto simp: HDFEOS_dates_def io_leaf_Inr io_simps dest!: date_pair_two)
    with d12 v' show "v = Some (Str (slice_2_8 d1 @ ''-'' @ slice_2_8 d2))" by simp
  next
    assume other: "split CHR ''-'' token = dname # rest \<and> dname \<noteq> ''displacement''
            \<and> HDFEOS_get_date_list env (infile inps) = Inr dates"
    then have sp: "split CHR ''-'' token = dname # rest" by simp
    from read_HDFEOS_DATE12 [OF branch tok sp] obtain x1 x2 evs1
      where dates: "HDFEOS_dates env inps
               (change_reference (\<lambda>key. map_option Str (stored key)) (ref_yx inps))
               token dname (evs @ [ReadAttribute (infile inps)]) = (Inr (x1, x2), evs1)"
        and d12: "atr' ''DATE12'' = Some (Str (slice_2_8 x1 @ ''-'' @ slice_2_8 x2))"
      by auto
    from dates other have "x1 = hd dates \<and> x2 = last dates"
      by (auto simp: HDFEOS_dates_def io_leaf_Inr io_simps dest!: first_hd final_Inr
          elim!: io_bind_InrE)
    with d12 v' show "v = Some (Str (slice_2_8 (hd dates) @ ''-'' @ slice_2_8 (last dates)))"
      by simp
  qed
qed

theorem C4_HDFEOS_DATE12_witness:
  "attribute_of (read_data
      (memory_ext [(''FILE_TYPE'', ''HDFEOS''), (''WAVELENGTH'', ''0.0562'')]
         [(Some ''displacement-20170904'', [[1]]), (Some ''displacement-20170916'', [[3]])]
         [''20141213'', ''20180619''])
      \<lparr>infile = ''S1.he5'', dset = Some ''displacement-20170904_20170916'',
        outfile = None, ref_yx = None\<rparr> []) ''DATE12''
     = Inr (Some (Str ''170904-170916''))
   \<and> attribute_of (read_data
      (memory_ext [(''FILE_TYPE'', ''HDFEOS''), (''WAVELENGTH'', ''0.0562'')]
         [(Some ''height'', [[7]])] [''20141213'', ''20180619''])
      \<lparr>infile = ''S1.he5'', dset = Some ''height'', outfile = None, ref_yx = None\<rparr> []) ''DATE12''
     = Inr (Some (Str ''141213-180619''))"
proof -
  obtain v where run1: "attribute_of (read_data
      (memory_ext [(''FILE_TYPE'', ''HDFEOS''), (''WAVELENGTH'', ''0.0562'')]
         [(Some ''displacement-20170904'', [[1]]), (Some ''displacement-20170916'', [[3]])]
         [''20141213'', ''20180619''])
      \<lparr>infile = ''S1.he5'', dset = Some ''displacement-20170904_20170916'',
        outfile = None, ref_yx = None\<rparr> []) ''DATE12'' = Inr v"
    by (simp add: eval_read eval_text eval_raster attribute_of_def isub_def
        List.map_filter_def upt_rec io_simps)
  obtain w where run2: "attribute_of (read_data
      (memory_ext [(''FILE_TYPE'', ''HDFEOS''), (''WAVELENGTH'', ''0.0562'')]
         [(Some ''height'', [[7]])] [''20141213'', ''20180619''])
      \<lparr>infile = ''S1.he5'', dset = Some ''height'', outfile = None, ref_yx = None\<rparr> []) ''DATE12''
     = Inr w"
    by (simp add: eval_read eval_text eval_raster attribute_of_def
        List.map_filter_def io_simps)
  have "v = Some (Str ''170904-170916'')"
    using C4_HDFEOS_DATE12 [where stored = "map_of [(''FILE_TYPE'', ''HDFEOS''), (''WAVELENGTH'', ''0.0562'')]"
        and token = "''displacement-20170904_20170916''"
        and ?e1.0 = "''20170904''" and ?e2.0 = "''20170916''"
        and ?d1.0 = "''20170904''" and ?d2.0 = "''20170916''", OF _ _ _ run1]
    by (simp add: memory_ext_def slice_2_8_def)
  moreover have "w = Some (Str ''141213-180619'')"
    using C4_HDFEOS_DATE12 [where stored = "map_of [(''FILE_TYPE'', ''HDFEOS''), (''WAVELENGTH'', ''0.0562'')]"
        and token = "''height''" and dname = "''height''" and rest = "[]"
        and dates = "[''20141213'', ''20180619'']", OF _ _ _ run2]
    by (simp add: memory_ext_def slice_2_8_def)
  ultimately show ?thesis using run1 run2 by simp
qed

end
